theory Spec2Isabelle
  imports Main "HOL-Library.Word" "HOL-Library.AList" "HOL-Library.Sublist"
begin

section \<open>Data model\<close>

text \<open>
  The embedding follows \<^verbatim>\<open>grub_install/_target.py\<close> and \<^verbatim>\<open>grub_install/_util.py\<close>.
  Python exceptions are values of type \<open>error\<close>; a function that may raise returns
  \<open>error + 'a\<close> with \<open>Inl\<close> for the exception.
\<close>

type_synonym byte = "8 word"

datatype error =
    AssertionError
  | IndexError
  | KeyError
  | TypeError
  | AttributeError
  | FileNotFoundError
  | FileExistsError
  | IsADirectoryError
  | NotADirectoryError
  | Exception string

text \<open>
  Modelled from the spec: the enumerations and the record of \<^verbatim>\<open>_const.py\<close>, which is not among
  the sources. \<open>PlatformType\<close> has the members that \<^verbatim>\<open>_target.py\<close> names; every other member of
  the closed enumeration is \<open>Platform n\<close>, with \<open>n\<close> its member name.
\<close>

datatype TargetType = MOUNTED_HDD_DEV | PYCDLIB_OBJ | ISO_DIR

datatype TargetAccessMode = R | W | RW

datatype PlatformType = I386_PC | I386_MULTIBOOT | MIPSEL_LOONGSON | Platform string

datatype Status = NOT_EXIST | EXIST | BOOTABLE

text \<open>
  A \<^verbatim>\<open>PlatformInstallInfo\<close> object gets its attributes by assignment; an attribute that was never
  assigned is \<open>None\<close>.
\<close>

record PlatformInstallInfo =
  status :: Status
  mbr_installed :: "bool option"
  allow_floppy :: "bool option"
  rs_codes :: "bool option"
  removable :: "bool option"
  nvram :: "bool option"

definition new_info :: "Status \<Rightarrow> PlatformInstallInfo" where
  "new_info st = \<lparr>status = st, mbr_installed = None, allow_floppy = None, rs_codes = None,
     removable = None, nvram = None\<rparr>"

text \<open>
  The attributes of a \<^verbatim>\<open>Target\<close>. \<open>t_dev\<close> is \<open>None\<close> when the attribute \<^verbatim>\<open>_dev\<close> was never set
  (only a mounted-device target sets it). \<open>t_platforms\<close> is the dict \<^verbatim>\<open>_platforms\<close> in insertion
  order: \<open>AList.update\<close> overwrites a key in place and puts a new key last, as a Python dict does.
\<close>

record Target =
  t_targetType :: TargetType
  t_mode :: TargetAccessMode
  t_bootDir :: string
  t_dev :: "string option"
  t_platforms :: "(PlatformType \<times> PlatformInstallInfo) list"

section \<open>The file tree, the devices and the helpers of \<^verbatim>\<open>_util.py\<close>\<close>

text \<open>
  The files below the boot directory are a tree of regular files and directories; a path is the
  list of its components below the boot directory, so that \<^verbatim>\<open>os.path.join(bootDir, "grub",
  "boot.img")\<close> is \<open>[''grub'', ''boot.img'']\<close>. Links and device nodes, which \<^verbatim>\<open>force_rm\<close>
  removes like a regular file, are not part of the tree. The entries of a directory are kept in
  the order \<^verbatim>\<open>os.listdir\<close> reports them.
\<close>

datatype node = File "byte list" | Dir "(string \<times> node) list"

type_synonym path = "string list"

fun lookup :: "node \<Rightarrow> path \<Rightarrow> node option" where
  "lookup n [] = Some n"
| "lookup (File b) (x # p) = None"
| "lookup (Dir es) (x # p) = (case map_of es x of None \<Rightarrow> None | Some c \<Rightarrow> lookup c p)"

text \<open>\<open>alter p f n\<close> replaces the entry at \<open>p\<close> (or its absence) by what \<open>f\<close> gives.\<close>

fun alter :: "path \<Rightarrow> (node option \<Rightarrow> node option) \<Rightarrow> node \<Rightarrow> node" where
  "alter [] f n = n"
| "alter (x # p) f (File b) = File b"
| "alter [x] f (Dir es) =
     Dir (case f (map_of es x) of None \<Rightarrow> AList.delete x es | Some c \<Rightarrow> AList.update x c es)"
| "alter (x # y # p) f (Dir es) =
     (case map_of es x of None \<Rightarrow> Dir es
      | Some c \<Rightarrow> Dir (AList.update x (alter (y # p) f c) es))"

definition os_path_exists :: "node \<Rightarrow> path \<Rightarrow> bool" where
  "os_path_exists n p = (lookup n p \<noteq> None)"

definition os_path_isdir :: "node \<Rightarrow> path \<Rightarrow> bool" where
  "os_path_isdir n p = (case lookup n p of Some (Dir es) \<Rightarrow> True | _ \<Rightarrow> False)"

definition os_listdir :: "node \<Rightarrow> path \<Rightarrow> error + string list" where
  "os_listdir n p =
     (case lookup n p of
        None \<Rightarrow> Inl FileNotFoundError
      | Some (File b) \<Rightarrow> Inl NotADirectoryError
      | Some (Dir es) \<Rightarrow> Inr (map fst es))"

text \<open>\<^verbatim>\<open>os.remove\<close>, \<^verbatim>\<open>shutil.rmtree\<close> and \<^verbatim>\<open>os.rmdir\<close> at a path that exists: the entry goes.\<close>

definition unlink :: "path \<Rightarrow> node \<Rightarrow> node" where
  "unlink p n = alter p (\<lambda>_. None) n"

definition os_mkdir :: "path \<Rightarrow> node \<Rightarrow> error + node" where
  "os_mkdir p n =
     (if lookup n p \<noteq> None then Inl FileExistsError
      else case lookup n (butlast p) of
             None \<Rightarrow> Inl FileNotFoundError
           | Some (File b) \<Rightarrow> Inl NotADirectoryError
           | Some (Dir es) \<Rightarrow> Inr (alter p (\<lambda>_. Some (Dir [])) n))"

text \<open>\<^verbatim>\<open>pathlib.Path(p).read_bytes()\<close>.\<close>

definition read_bytes :: "node \<Rightarrow> path \<Rightarrow> error + byte list" where
  "read_bytes n p =
     (case lookup n p of
        None \<Rightarrow> Inl FileNotFoundError
      | Some (Dir es) \<Rightarrow> Inl IsADirectoryError
      | Some (File b) \<Rightarrow> Inr b)"

text \<open>Opening \<open>p\<close> for writing and writing \<open>b\<close>: the file is created or replaced.\<close>

definition write_file :: "path \<Rightarrow> byte list \<Rightarrow> node \<Rightarrow> error + node" where
  "write_file p b n =
     (case lookup n p of
        Some (Dir es) \<Rightarrow> Inl IsADirectoryError
      | _ \<Rightarrow> (case lookup n (butlast p) of
                None \<Rightarrow> Inl FileNotFoundError
              | Some (File c) \<Rightarrow> Inl NotADirectoryError
              | Some (Dir es) \<Rightarrow> Inr (alter p (\<lambda>_. Some (File b)) n)))"

text \<open>
  \<^verbatim>\<open>shutil.copy(src, dst)\<close> for a source file of content \<open>b\<close> (\<open>None\<close>: no such file) and name
  \<open>name\<close>: into the directory \<open>dst\<close> when \<open>dst\<close> is one, to the file \<open>dst\<close> otherwise.
\<close>

definition shutil_copy :: "byte list option \<Rightarrow> string \<Rightarrow> path \<Rightarrow> node \<Rightarrow> error + node" where
  "shutil_copy src name dst n =
     (case src of
        None \<Rightarrow> Inl FileNotFoundError
      | Some b \<Rightarrow> (if os_path_isdir n dst then write_file (dst @ [name]) b n
                   else write_file dst b n))"

definition force_rm :: "path \<Rightarrow> node \<Rightarrow> node" where
  "force_rm p n =
     (case lookup n p of
        Some (File b) \<Rightarrow> unlink p n
      | Some (Dir es) \<Rightarrow> unlink p n
      | None \<Rightarrow> n)"

definition force_mkdir :: "path \<Rightarrow> node \<Rightarrow> error + node" where
  "force_mkdir p n =
     (case lookup n p of
        Some (File b) \<Rightarrow> os_mkdir p (unlink p n)
      | Some (Dir es) \<Rightarrow> os_mkdir p (unlink p n)
      | None \<Rightarrow> os_mkdir p n)"

definition rmdir_if_empty :: "path \<Rightarrow> node \<Rightarrow> error + node" where
  "rmdir_if_empty p n =
     (case os_listdir n p of
        Inl e \<Rightarrow> Inl e
      | Inr names \<Rightarrow> (if length names = 0 then Inr (unlink p n) else Inr n))"

text \<open>
  The world a \<^verbatim>\<open>Target\<close> works on: the tree below its boot directory, the raw block devices by
  path, and the modification time that \<^verbatim>\<open>os.stat\<close> reports for a path of the tree. Writing to a
  block device overwrites bytes in place and never shortens it. Only \<^verbatim>\<open>compare_files\<close> reads the
  modification times; the model has no clock, and its operations that write files leave the
  times as they are.
\<close>

record world =
  boot :: node
  devs :: "(string \<times> byte list) list"
  mtime :: "path \<Rightarrow> nat"

definition open_rb :: "world \<Rightarrow> string option \<Rightarrow> error + byte list" where
  "open_rb w dev =
     (case dev of
        None \<Rightarrow> Inl TypeError
      | Some d \<Rightarrow> (case map_of (devs w) d of None \<Rightarrow> Inl FileNotFoundError | Some f \<Rightarrow> Inr f))"

definition dev_write :: "string \<Rightarrow> byte list \<Rightarrow> world \<Rightarrow> error + world" where
  "dev_write d buf w =
     (case map_of (devs w) d of
        None \<Rightarrow> Inl FileNotFoundError
      | Some f \<Rightarrow> Inr (w\<lparr>devs := AList.update d (buf @ drop (length buf) f) (devs w)\<rparr>))"

text \<open>The slice \<^verbatim>\<open>buf[a:b]\<close> of Python, for indices that are not negative.\<close>

definition slice :: "nat \<Rightarrow> nat \<Rightarrow> 'a list \<Rightarrow> 'a list" where
  "slice a b buf = take (b - a) (drop a buf)"

text \<open>
  \<^verbatim>\<open>compare_files\<close> is \<^verbatim>\<open>filecmp.cmp(filepath1, filepath2, shallow=False)\<close> of the standard
  library. \<^verbatim>\<open>filecmp\<close> keeps a cache of outcomes in the process, a dict \<^verbatim>\<open>_cache\<close> whose keys are
  the two paths with their signatures; the signature \<^verbatim>\<open>_sig(os.stat(p))\<close> of a path is its type,
  its size and its modification time. (The size of a directory is read by nothing.)
\<close>

datatype file_type = S_IFREG | S_IFDIR

type_synonym stat_sig = "file_type \<times> nat \<times> nat"

type_synonym filecmp_cache = "((path \<times> path \<times> stat_sig \<times> stat_sig) \<times> bool) list"

definition os_stat_sig :: "world \<Rightarrow> path \<Rightarrow> error + stat_sig" where
  "os_stat_sig w p =
     (case lookup (boot w) p of
        None \<Rightarrow> Inl FileNotFoundError
      | Some (File b) \<Rightarrow> Inr (S_IFREG, length b, mtime w p)
      | Some (Dir es) \<Rightarrow> Inr (S_IFDIR, 0, mtime w p))"

text \<open>\<^verbatim>\<open>filecmp._do_cmp\<close>: both files are read and their contents compared.\<close>

definition do_cmp :: "node \<Rightarrow> path \<Rightarrow> path \<Rightarrow> error + bool" where
  "do_cmp n f1 f2 =
     (case read_bytes n f1 of
        Inl e \<Rightarrow> Inl e
      | Inr b1 \<Rightarrow> (case read_bytes n f2 of Inl e \<Rightarrow> Inl e | Inr b2 \<Rightarrow> Inr (b1 = b2)))"

text \<open>
  \<^verbatim>\<open>filecmp.cmp\<close> with \<^verbatim>\<open>shallow=False\<close>: \<open>False\<close> unless both paths are regular files of one size;
  then the outcome that the cache holds for the two paths and their signatures, if it holds one;
  otherwise the comparison of the contents, which is stored in the cache (emptied first when it
  has more than 100 entries). The result carries the cache that the call leaves.
\<close>

definition compare_files ::
  "world \<Rightarrow> filecmp_cache \<Rightarrow> path \<Rightarrow> path \<Rightarrow> (error + bool) \<times> filecmp_cache" where
  "compare_files w cache filepath1 filepath2 =
     (case os_stat_sig w filepath1 of
        Inl e \<Rightarrow> (Inl e, cache)
      | Inr s1 \<Rightarrow>
          (case os_stat_sig w filepath2 of
             Inl e \<Rightarrow> (Inl e, cache)
           | Inr s2 \<Rightarrow>
               if fst s1 \<noteq> S_IFREG \<or> fst s2 \<noteq> S_IFREG then (Inr False, cache)
               else if fst (snd s1) \<noteq> fst (snd s2) then (Inr False, cache)
               else
                 (case map_of cache (filepath1, filepath2, s1, s2) of
                    Some outcome \<Rightarrow> (Inr outcome, cache)
                  | None \<Rightarrow>
                      (case do_cmp (boot w) filepath1 filepath2 of
                         Inl e \<Rightarrow> (Inl e, cache)
                       | Inr outcome \<Rightarrow>
                           (Inr outcome,
                            AList.update (filepath1, filepath2, s1, s2) outcome
                              (if length cache > 100 then [] else cache))))))"

section \<open>What the other modules provide\<close>

text \<open>
  \<^verbatim>\<open>_handy.py\<close> (classes \<^verbatim>\<open>Handy\<close> and \<^verbatim>\<open>Grub\<close>), \<^verbatim>\<open>_source.py\<close>, the members of \<^verbatim>\<open>PlatformType\<close> with
  their values, and the \<^verbatim>\<open>parted\<close> library are not among the sources. The code of \<^verbatim>\<open>_target.py\<close>
  is modelled over any choice of them: they are the fields of the record \<open>env\<close>. An external
  function that writes files maps the tree to its outcome and the tree it leaves.
\<close>

record MountInfo =
  mnt_fs :: string
  mnt_fs_uuid :: "string option"
  mnt_mnt_pt :: string

text \<open>A \<^verbatim>\<open>Source\<close>: the content of a file of the payload directory of a platform.\<close>

record Source =
  platform_file :: "PlatformType \<Rightarrow> string \<Rightarrow> byte list option"

text \<open>
  What \<^verbatim>\<open>parted\<close> reports for a device: the type of its partition table, the start sector of each
  primary partition, and the sector size.
\<close>

record PartedDisk =
  pd_type :: string
  pd_primaryStarts :: "nat list"
  pd_sectorSize :: nat

record env =
  PlatformType_members :: "PlatformType list"
  PlatformType_value :: "PlatformType \<Rightarrow> string"
  Handy_isPlatformEfi :: "PlatformType \<Rightarrow> bool"
  Handy_isPlatformCoreboot :: "PlatformType \<Rightarrow> bool"
  Handy_isPlatformQemu :: "PlatformType \<Rightarrow> bool"
  Handy_getStandardEfiFilename :: "PlatformType \<Rightarrow> string"
  Grub_DISK_SECTOR_SIZE :: nat
  Grub_BOOT_MACHINE_BPB_START :: nat
  Grub_BOOT_MACHINE_BPB_END :: nat
  Grub_BOOT_MACHINE_DRIVE_CHECK :: nat
  Grub_BOOT_MACHINE_WINDOWS_NT_MAGIC :: nat
  Grub_BOOT_MACHINE_PART_END :: nat
  Grub_probeMnt :: "string \<Rightarrow> error + MountInfo"
  Grub_getGrubFsName :: "string \<Rightarrow> error + string"
  Grub_copyPlatformFiles :: "PlatformType \<Rightarrow> Source \<Rightarrow> node \<Rightarrow> (error + unit) \<times> node"
  Grub_getCoreImgNameAndTarget :: "string \<times> string"
  Grub_makeCoreImage ::
    "Source \<Rightarrow> PlatformType \<Rightarrow> path \<Rightarrow> string \<Rightarrow> string list \<Rightarrow> path \<Rightarrow> node
     \<Rightarrow> (error + unit) \<times> node"
  Grub_copyLocaleFiles :: "Source \<Rightarrow> string list \<Rightarrow> node \<Rightarrow> (error + unit) \<times> node"
  Grub_copyFontFiles :: "Source \<Rightarrow> string list \<Rightarrow> node \<Rightarrow> (error + unit) \<times> node"
  Grub_copyThemeFiles :: "Source \<Rightarrow> string list \<Rightarrow> node \<Rightarrow> (error + unit) \<times> node"
  Grub_createEnvBlkFile :: "path \<Rightarrow> node \<Rightarrow> (error + unit) \<times> node"
  parted_newDisk :: "string \<Rightarrow> error + PartedDisk"

section \<open>The loop \<^verbatim>\<open>while True\<close>\<close>

text \<open>
  One pass of a loop body either leaves the loop (\<open>Break\<close>) or reaches the end of the body
  (\<open>Next\<close>), each with the values of the local variables; it may also raise. \<^verbatim>\<open>while True\<close>
  repeats the body until it breaks or raises. The loop that does neither returns nothing: its
  value is \<open>None\<close>.
\<close>

datatype 'a loop_step = Break 'a | Next 'a

partial_function (option) while_True ::
  "('a \<Rightarrow> error + 'a loop_step) \<Rightarrow> 'a \<Rightarrow> (error + 'a) option" where
  "while_True body st =
     (case body st of
        Inl e \<Rightarrow> Some (Inl e)
      | Inr (Break st') \<Rightarrow> Some (Inr st')
      | Inr (Next st') \<Rightarrow> while_True body st')"

section \<open>Class \<^verbatim>\<open>_Bios\<close>: verification\<close>

definition Bios_getMbrGapSizeThreshold :: nat where
  "Bios_getMbrGapSizeThreshold = 512 * 1024"

text \<open>
  Lines 377 to 382: the two bytes of the drive check. \<open>None\<close> is the \<^verbatim>\<open>break\<close>; \<open>Some b\<close> is the
  assignment of \<open>b\<close> to \<^verbatim>\<open>bAllowFloppy\<close>.
\<close>

definition drive_check :: "byte list \<Rightarrow> byte list \<Rightarrow> nat \<Rightarrow> nat \<Rightarrow> bool option" where
  "drive_check tmpBuf bootBuf s2 e2 =
     (if slice s2 e2 tmpBuf = [0x90, 0x90] then Some False
      else if slice s2 e2 tmpBuf \<noteq> slice s2 e2 bootBuf then None
      else Some True)"

text \<open>
  The body of the loop of \<^verbatim>\<open>check_and_fill_platform_install_info\<close> (lines 355 to 394), on the
  local variables \<^verbatim>\<open>bOk\<close> and \<^verbatim>\<open>bAllowFloppy\<close>. The second \<^verbatim>\<open>f.read\<close> continues behind the
  first sector.
\<close>

definition Bios_check_pass ::
  "env \<Rightarrow> world \<Rightarrow> string option \<Rightarrow> bool \<times> bool option \<Rightarrow> error + (bool \<times> bool option) loop_step"
  where
  "Bios_check_pass E w dev st =
     (case lookup (boot w) [''grub'', ''boot.img''] of
        None \<Rightarrow> Inr (Break st)
      | Some (Dir es) \<Rightarrow> Inl IsADirectoryError
      | Some (File bootBuf) \<Rightarrow>
          if length bootBuf \<noteq> Grub_DISK_SECTOR_SIZE E then Inr (Break st)
          else
            (case lookup (boot w) [''grub'', ''core.img''] of
               None \<Rightarrow> Inr (Break st)
             | Some (Dir es) \<Rightarrow> Inl IsADirectoryError
             | Some (File coreBuf) \<Rightarrow>
                 if \<not> (Grub_DISK_SECTOR_SIZE E \<le> length coreBuf
                        \<and> length coreBuf \<le> Bios_getMbrGapSizeThreshold)
                 then Inr (Break st)
                 else
                   (case open_rb w dev of
                      Inl e \<Rightarrow> Inl e
                    | Inr f \<Rightarrow>
                        let tmpBuf = take (Grub_DISK_SECTOR_SIZE E) f;
                            s1 = Grub_BOOT_MACHINE_BPB_START E;
                            e1 = Grub_BOOT_MACHINE_BPB_END E;
                            s2 = Grub_BOOT_MACHINE_DRIVE_CHECK E;
                            e2 = Grub_BOOT_MACHINE_DRIVE_CHECK E + 2;
                            s3 = Grub_BOOT_MACHINE_WINDOWS_NT_MAGIC E;
                            e3 = Grub_BOOT_MACHINE_PART_END E
                        in
                          if take s1 tmpBuf \<noteq> take s1 bootBuf then Inr (Break st)
                          else if slice e1 s2 tmpBuf \<noteq> slice e1 s2 bootBuf then Inr (Break st)
                          else
                            (case drive_check tmpBuf bootBuf s2 e2 of
                               None \<Rightarrow> Inr (Break st)
                             | Some bAllowFloppy \<Rightarrow>
                                 if slice e2 s3 tmpBuf \<noteq> slice e2 s3 bootBuf
                                 then Inr (Break (fst st, Some bAllowFloppy))
                                 else if drop e3 tmpBuf \<noteq> drop e3 bootBuf
                                 then Inr (Break (fst st, Some bAllowFloppy))
                                 else if coreBuf \<noteq>
                                   take (length coreBuf) (drop (Grub_DISK_SECTOR_SIZE E) f)
                                 then Inr (Break (fst st, Some bAllowFloppy))
                                 else Inr (Next (True, Some bAllowFloppy))))))"

text \<open>
  \<^verbatim>\<open>_Bios.check_and_fill_platform_install_info\<close>. The result is \<open>None\<close> when the call does not
  return.
\<close>

definition Bios_check_and_fill_platform_install_info ::
  "env \<Rightarrow> PlatformType \<Rightarrow> PlatformInstallInfo \<Rightarrow> TargetType \<Rightarrow> world \<Rightarrow> string option
   \<Rightarrow> (error + PlatformInstallInfo) option" where
  "Bios_check_and_fill_platform_install_info E platform_type platform_install_info target_type w dev =
     (if status platform_install_info \<noteq> BOOTABLE then Some (Inl AssertionError)
      else
        (case while_True (Bios_check_pass E w dev) (False, None) of
           None \<Rightarrow> None
         | Some (Inl e) \<Rightarrow> Some (Inl e)
         | Some (Inr (bOk, bAllowFloppy)) \<Rightarrow>
             if bOk
             then Some (Inr (platform_install_info\<lparr>mbr_installed := Some True,
                    allow_floppy := bAllowFloppy, rs_codes := Some False\<rparr>))
             else Some (Inr (platform_install_info\<lparr>status := EXIST\<rparr>))))"

section \<open>Class \<^verbatim>\<open>_Bios\<close>: installation\<close>

text \<open>
  \<^verbatim>\<open>re.fullmatch(".*[0-9]+$", dev)\<close>: the whole of \<open>dev\<close> is any characters but newlines, followed
  by one digit or more. That is: \<open>dev\<close> ends in a digit and holds no newline.
\<close>

definition is_digit :: "char \<Rightarrow> bool" where
  "is_digit c = (c \<in> set ''0123456789'')"

definition re_fullmatch_dev :: "string \<Rightarrow> bool" where
  "re_fullmatch_dev dev = (dev \<noteq> [] \<and> is_digit (last dev) \<and> CHR 0x0A \<notin> set dev)"

text \<open>
  \<^verbatim>\<open>_Bios._isValidDisk\<close>, line by line. Behind the test \<^verbatim>\<open>len(pPartiList) > 0\<close> the list is empty,
  and \<^verbatim>\<open>pPartiList[0]\<close> raises \<^verbatim>\<open>IndexError\<close>.
\<close>

definition Bios_isValidDisk :: "env \<Rightarrow> string \<Rightarrow> error + bool" where
  "Bios_isValidDisk E dev =
     (if \<not> re_fullmatch_dev dev then Inr False
      else
        (case parted_newDisk E dev of
           Inl e \<Rightarrow> Inl e
         | Inr pDisk \<Rightarrow>
             if pd_type pDisk \<noteq> ''msdos'' then Inr False
             else if length (pd_primaryStarts pDisk) > 0 then Inr False
             else
               (case pd_primaryStarts pDisk of
                  [] \<Rightarrow> Inl IndexError
                | start # rest \<Rightarrow>
                    if start * pd_sectorSize pDisk < Bios_getMbrGapSizeThreshold
                    then Inr False
                    else Inr True)))"

text \<open>
  The assignment \<^verbatim>\<open>buf[s:e] = v\<close> to a bytearray, and \<^verbatim>\<open>buf[i] = b\<close>, which raises behind the
  end.
\<close>

definition slice_assign :: "nat \<Rightarrow> nat \<Rightarrow> 'a list \<Rightarrow> 'a list \<Rightarrow> 'a list" where
  "slice_assign s e v buf = take s buf @ v @ drop (max s e) buf"

definition index_assign :: "nat \<Rightarrow> 'a \<Rightarrow> 'a list \<Rightarrow> error + 'a list" where
  "index_assign i b buf = (if i < length buf then Inr (buf[i := b]) else Inl IndexError)"

text \<open>
  Lines 418 to 454 of \<^verbatim>\<open>_Bios.install_platform\<close>: the sizes, the new boot sector, and the write
  of the boot sector and the core image to the device.
\<close>

definition Bios_install_mbr :: "env \<Rightarrow> world \<Rightarrow> string \<Rightarrow> bool \<Rightarrow> bool \<Rightarrow> bool \<Rightarrow> error + world" where
  "Bios_install_mbr E w dev bFloppyOrHdd bAllowFloppy bAddRsCodes =
     (case read_bytes (boot w) [''grub'', ''boot.img''] of
        Inl e \<Rightarrow> Inl e
      | Inr bootBuf \<Rightarrow>
          if length bootBuf \<noteq> Grub_DISK_SECTOR_SIZE E
          then Inl (Exception ''the size of boot.img is not DISK_SECTOR_SIZE'')
          else
            (case read_bytes (boot w) [''grub'', ''core.img''] of
               Inl e \<Rightarrow> Inl e
             | Inr coreBuf \<Rightarrow>
                 if length coreBuf < Grub_DISK_SECTOR_SIZE E
                 then Inl (Exception ''the size of core.img is too small'')
                 else if length coreBuf > Bios_getMbrGapSizeThreshold
                 then Inl (Exception ''the size of core.img is too large'')
                 else
                   (case open_rb w (Some dev) of
                      Inl e \<Rightarrow> Inl e
                    | Inr f \<Rightarrow>
                        let tmpBuf = take (Grub_DISK_SECTOR_SIZE E) f;
                            bootBuf1 = slice_assign (Grub_BOOT_MACHINE_BPB_START E)
                              (Grub_BOOT_MACHINE_BPB_END E)
                              (slice (Grub_BOOT_MACHINE_BPB_START E)
                                 (Grub_BOOT_MACHINE_BPB_END E) tmpBuf) bootBuf
                        in
                          (case (if \<not> bAllowFloppy \<and> \<not> bFloppyOrHdd
                                 then (case index_assign (Grub_BOOT_MACHINE_DRIVE_CHECK E) 0x90
                                              bootBuf1 of
                                         Inl e \<Rightarrow> Inl e
                                       | Inr b \<Rightarrow>
                                           index_assign (Grub_BOOT_MACHINE_DRIVE_CHECK E + 1)
                                             0x90 b)
                                 else Inr bootBuf1) of
                             Inl e \<Rightarrow> Inl e
                           | Inr bootBuf2 \<Rightarrow>
                               let bootBuf3 =
                                 (if \<not> bAllowFloppy \<and> \<not> bFloppyOrHdd
                                  then slice_assign (Grub_BOOT_MACHINE_WINDOWS_NT_MAGIC E)
                                    (Grub_BOOT_MACHINE_PART_END E)
                                    (slice (Grub_BOOT_MACHINE_WINDOWS_NT_MAGIC E)
                                       (Grub_BOOT_MACHINE_PART_END E) tmpBuf) bootBuf2
                                  else bootBuf2)
                               in
                                 if bAddRsCodes then Inl AssertionError
                                 else dev_write dev (bootBuf3 @ coreBuf) w))))"

text \<open>
  Lines 410 to 459 of \<^verbatim>\<open>_Bios.install_platform\<close>: what follows the two assertions. The result
  carries the world as it is when the call returns or raises.
\<close>

definition Bios_install_body ::
  "env \<Rightarrow> PlatformType \<Rightarrow> PlatformInstallInfo \<Rightarrow> Source \<Rightarrow> world \<Rightarrow> string \<Rightarrow> bool \<Rightarrow> bool
   \<Rightarrow> bool \<Rightarrow> bool \<Rightarrow> (error + PlatformInstallInfo) \<times> world" where
  "Bios_install_body E platform_type platform_install_info source w dev bInstallMbr bFloppyOrHdd
     bAllowFloppy bAddRsCodes =
     (case shutil_copy (platform_file source platform_type ''boot.img'') ''boot.img''
             [''grub'', ''boot.img''] (boot w) of
        Inl e \<Rightarrow> (Inl e, w)
      | Inr n1 \<Rightarrow>
          (case (if bInstallMbr
                 then Bios_install_mbr E (w\<lparr>boot := n1\<rparr>) dev bFloppyOrHdd bAllowFloppy
                        bAddRsCodes
                 else Inr (w\<lparr>boot := n1\<rparr>)) of
             Inl e \<Rightarrow> (Inl e, w\<lparr>boot := n1\<rparr>)
           | Inr w2 \<Rightarrow>
               (Inr (platform_install_info\<lparr>mbr_installed := Some bInstallMbr,
                  allow_floppy := Some bAllowFloppy, rs_codes := Some bAddRsCodes\<rparr>), w2)))"

text \<open>Line 408: what the second assertion of \<^verbatim>\<open>_Bios.install_platform\<close> asks of the flags.\<close>

definition Bios_install_flags_ok :: "bool \<Rightarrow> bool \<Rightarrow> bool \<Rightarrow> bool" where
  "Bios_install_flags_ok bFloppyOrHdd bAllowFloppy bAddRsCodes =
     (\<not> bFloppyOrHdd \<and> \<not> bAllowFloppy \<and> \<not> bAddRsCodes)"

definition Bios_install_platform ::
  "env \<Rightarrow> PlatformType \<Rightarrow> PlatformInstallInfo \<Rightarrow> Source \<Rightarrow> world \<Rightarrow> string \<Rightarrow> bool \<Rightarrow> bool
   \<Rightarrow> bool \<Rightarrow> bool \<Rightarrow> (error + PlatformInstallInfo) \<times> world" where
  "Bios_install_platform E platform_type platform_install_info source w dev bInstallMbr
     bFloppyOrHdd bAllowFloppy bAddRsCodes =
     (case Bios_isValidDisk E dev of
        Inl e \<Rightarrow> (Inl e, w)
      | Inr valid \<Rightarrow>
          if \<not> valid then (Inl AssertionError, w)
          else if \<not> Bios_install_flags_ok bFloppyOrHdd bAllowFloppy bAddRsCodes
          then (Inl AssertionError, w)
          else Bios_install_body E platform_type platform_install_info source w dev bInstallMbr
                 bFloppyOrHdd bAllowFloppy bAddRsCodes)"

text \<open>\<^verbatim>\<open>_Bios.remove_platform\<close> is \<^verbatim>\<open>pass\<close>.\<close>

definition Bios_remove_platform :: "PlatformType \<Rightarrow> string option \<Rightarrow> world \<Rightarrow> world" where
  "Bios_remove_platform platform_type bootDir w = w"

section \<open>Class \<^verbatim>\<open>_Efi\<close>\<close>

definition Efi_check_and_fill_platform_install_info ::
  "env \<Rightarrow> PlatformType \<Rightarrow> PlatformInstallInfo \<Rightarrow> TargetType \<Rightarrow> world \<Rightarrow> filecmp_cache
   \<Rightarrow> (error + PlatformInstallInfo) \<times> filecmp_cache" where
  "Efi_check_and_fill_platform_install_info E platform_type platform_install_info target_type w
     cache =
     (if status platform_install_info \<noteq> BOOTABLE then (Inl AssertionError, cache)
      else
        let coreFullfn = [''grub'', PlatformType_value E platform_type,
                          fst (Grub_getCoreImgNameAndTarget E)];
            efiFullfn = [''EFI'', ''BOOT'', Handy_getStandardEfiFilename E platform_type]
        in
          if \<not> os_path_exists (boot w) efiFullfn
          then (Inr (platform_install_info\<lparr>status := EXIST\<rparr>), cache)
          else
            (case compare_files w cache coreFullfn efiFullfn of
               (Inl e, cache') \<Rightarrow> (Inl e, cache')
             | (Inr same, cache') \<Rightarrow>
                 if \<not> same then (Inr (platform_install_info\<lparr>status := EXIST\<rparr>), cache')
                 else (Inr (platform_install_info\<lparr>removable := Some True,
                         nvram := Some False\<rparr>), cache')))"

text \<open>\<^verbatim>\<open>shutil.copy\<close> between two paths of the tree.\<close>

definition copy_within :: "path \<Rightarrow> path \<Rightarrow> node \<Rightarrow> error + node" where
  "copy_within src dst n =
     (case read_bytes n src of
        Inl e \<Rightarrow> Inl e
      | Inr b \<Rightarrow> shutil_copy (Some b) (last src) dst n)"

definition Efi_install_platform ::
  "env \<Rightarrow> PlatformType \<Rightarrow> PlatformInstallInfo \<Rightarrow> Source \<Rightarrow> node
   \<Rightarrow> (error + PlatformInstallInfo) \<times> node" where
  "Efi_install_platform E platform_type platform_install_info source n =
     (let grubPlatDir = [''grub'', PlatformType_value E platform_type];
          efiDir = [''EFI''];
          efiDirLv2 = [''EFI'', ''BOOT''];
          efiFn = Handy_getStandardEfiFilename E platform_type
      in
        case force_mkdir efiDir n of
          Inl e \<Rightarrow> (Inl e, n)
        | Inr n1 \<Rightarrow>
            (case force_mkdir efiDirLv2 n1 of
               Inl e \<Rightarrow> (Inl e, n1)
             | Inr n2 \<Rightarrow>
                 (case copy_within (grubPlatDir @ [fst (Grub_getCoreImgNameAndTarget E)])
                         (efiDirLv2 @ [efiFn]) n2 of
                    Inl e \<Rightarrow> (Inl e, n2)
                  | Inr n3 \<Rightarrow>
                      (Inr (platform_install_info\<lparr>removable := Some True,
                         nvram := Some False\<rparr>), n3))))"

definition Efi_remove_platform :: "env \<Rightarrow> PlatformType \<Rightarrow> node \<Rightarrow> (error + unit) \<times> node" where
  "Efi_remove_platform E platform_type n =
     (let efiDir = [''EFI''];
          efiDirLv2 = [''EFI'', ''BOOT''];
          efiFn = Handy_getStandardEfiFilename E platform_type;
          n1 = force_rm (efiDirLv2 @ [efiFn]) n
      in
        case rmdir_if_empty efiDirLv2 n1 of
          Inl e \<Rightarrow> (Inl e, n1)
        | Inr n2 \<Rightarrow>
            (case rmdir_if_empty efiDir n2 of
               Inl e \<Rightarrow> (Inl e, n2)
             | Inr n3 \<Rightarrow> (Inr (), n3)))"

definition Efi_remove_remaining_crufts :: "node \<Rightarrow> node" where
  "Efi_remove_remaining_crufts n = force_rm [''EFI''] n"

section \<open>Class \<^verbatim>\<open>_Common\<close>\<close>

text \<open>
  \<^verbatim>\<open>os.path.join(a, b)\<close> for a relative \<open>b\<close>, and \<^verbatim>\<open>s.replace(old, "")\<close>, which drops the
  occurrences of \<open>old\<close> from left to right.
\<close>

definition os_path_join :: "string \<Rightarrow> string \<Rightarrow> string" where
  "os_path_join a b =
     (if a = [] then b else if last a = CHR ''/'' then a @ b else a @ ''/'' @ b)"

function str_remove :: "string \<Rightarrow> string \<Rightarrow> string" where
  "str_remove old [] = []"
| "str_remove old (c # s) =
     (if old \<noteq> [] \<and> prefix old (c # s) then str_remove old (drop (length old) (c # s))
      else c # str_remove old s)"
  by pat_completeness auto
termination
  by (relation "measure (\<lambda>(old, s). length s)") auto

definition str_bytes :: "string \<Rightarrow> byte list" where
  "str_bytes s = map (\<lambda>c. of_nat (of_char c)) s"

text \<open>
  \<^verbatim>\<open>_Common.init_platforms\<close>: every name in the grub directory is compared with the value of every
  member of \<^verbatim>\<open>PlatformType\<close>.
\<close>

definition Common_init_platforms ::
  "env \<Rightarrow> node \<Rightarrow> (PlatformType \<times> PlatformInstallInfo) list
   \<Rightarrow> error + (PlatformType \<times> PlatformInstallInfo) list" where
  "Common_init_platforms E n platforms =
     (if os_path_isdir n [''grub'']
      then (case os_listdir n [''grub''] of
              Inl e \<Rightarrow> Inl e
            | Inr names \<Rightarrow>
                Inr (fold (\<lambda>fn ps.
                       fold (\<lambda>pt ps'. if fn = PlatformType_value E pt
                                       then AList.update pt (new_info BOOTABLE) ps' else ps')
                         (PlatformType_members E) ps)
                     names platforms))
      else Inr platforms)"

text \<open>Lines 271 to 282: the kind of disk module of a platform.\<close>

definition disk_module_of :: "env \<Rightarrow> PlatformType \<Rightarrow> string option" where
  "disk_module_of E platform_type =
     (if platform_type = I386_PC then Some ''biosdisk''
      else if platform_type = I386_MULTIBOOT then Some ''native''
      else if Handy_isPlatformCoreboot E platform_type then Some ''native''
      else if Handy_isPlatformQemu E platform_type then Some ''native''
      else if platform_type = MIPSEL_LOONGSON then Some ''native''
      else None)"

text \<open>Lines 284 to 293: the disk modules join the module list.\<close>

definition add_disk_modules :: "string option \<Rightarrow> string list \<Rightarrow> error + string list" where
  "add_disk_modules disk_module moduleList =
     (case disk_module of
        None \<Rightarrow> Inr moduleList
      | Some m \<Rightarrow>
          if m = ''biosdisk'' then Inr (moduleList @ [''biosdisk''])
          else if m = ''native''
          then Inr (((moduleList @ [''pata'']) @ [''ahci''])
                      @ [''ohci'', ''uhci'', ''ehci'', ''ubms''])
          else Inl AssertionError)"

text \<open>
  \<^verbatim>\<open>_Common.install_platform\<close>. Python returns nothing here; the model returns the module list that
  the call hands to \<^verbatim>\<open>Grub.makeCoreImage\<close>, so that theorems can speak about it.
\<close>

definition Common_install_platform ::
  "env \<Rightarrow> Target \<Rightarrow> PlatformType \<Rightarrow> Source \<Rightarrow> node \<Rightarrow> (error + string list) \<times> node" where
  "Common_install_platform E p platform_type source n =
     (case Grub_probeMnt E (t_bootDir p) of
        Inl e \<Rightarrow> (Inl e, n)
      | Inr mnt \<Rightarrow>
          (case mnt_fs_uuid mnt of
             None \<Rightarrow> (Inl (Exception []), n)
           | Some fs_uuid \<Rightarrow>
               let grubDir = os_path_join (t_bootDir p) ''grub'';
                   relGrubDir = str_remove (mnt_mnt_pt mnt) grubDir
               in
                 (case add_disk_modules (disk_module_of E platform_type) [] of
                    Inl e \<Rightarrow> (Inl e, n)
                  | Inr moduleList1 \<Rightarrow>
                      if Handy_isPlatformEfi E platform_type \<and> mnt_fs mnt \<noteq> ''vfat''
                      then (Inl (Exception ''bootDir does not look like an EFI partition''), n)
                      else
                        (case Grub_getGrubFsName E (mnt_fs mnt) of
                           Inl e \<Rightarrow> (Inl e, n)
                         | Inr fsName \<Rightarrow>
                             (case Grub_copyPlatformFiles E platform_type source n of
                                (Inl e, n1) \<Rightarrow> (Inl e, n1)
                              | (Inr u, n1) \<Rightarrow>
                                  let loadCfgFile =
                                        [''grub'', PlatformType_value E platform_type,
                                         ''load.cfg''];
                                      moduleList3 = (moduleList1 @ [fsName]) @ [''search_fs_uuid''];
                                      text1 = ''search.fs_uuid '' @ fs_uuid @ '' root '' @ []
                                                @ [CHR 0x0A];
                                      text2 = ''set prefix=($root)'' @ [CHR 0x27] @ relGrubDir
                                                @ [CHR 0x27] @ [CHR 0x0A]
                                  in
                                    (case write_file loadCfgFile (str_bytes (text1 @ text2)) n1 of
                                       Inl e \<Rightarrow> (Inl e, n1)
                                     | Inr n2 \<Rightarrow>
                                         (case Grub_makeCoreImage E source platform_type
                                                 loadCfgFile (snd (Grub_getCoreImgNameAndTarget E))
                                                 moduleList3
                                                 [''grub'', PlatformType_value E platform_type,
                                                  fst (Grub_getCoreImgNameAndTarget E)] n2 of
                                            (Inl e, n3) \<Rightarrow> (Inl e, n3)
                                          | (Inr u, n3) \<Rightarrow> (Inr moduleList3, n3))))))))"

definition Common_remove_platform :: "env \<Rightarrow> PlatformType \<Rightarrow> node \<Rightarrow> node" where
  "Common_remove_platform E platform_type n =
     force_rm [''grub'', PlatformType_value E platform_type] n"

definition Common_remove_remaining_crufts :: "node \<Rightarrow> node" where
  "Common_remove_remaining_crufts n = force_rm [''grub''] n"

text \<open>\<^verbatim>\<open>_Common.check\<close>: the two sets it computes are used by nothing.\<close>

definition Common_check :: "Target \<Rightarrow> node \<Rightarrow> bool \<Rightarrow> error + unit" where
  "Common_check p n auto_fix =
     (if os_path_isdir n [''grub'']
      then (case os_listdir n [''grub''] of Inl e \<Rightarrow> Inl e | Inr names \<Rightarrow> Inr ())
      else if length (t_platforms p) > 0 then Inl (Exception [])
      else Inr ())"

definition Common_check_with_source :: "Target \<Rightarrow> Source \<Rightarrow> bool \<Rightarrow> error + unit" where
  "Common_check_with_source p source auto_fix = Inr ()"

section \<open>Target.get_platform_install_info\<close>

text \<open>
  \<^verbatim>\<open>assert isinstance(platform_type, PlatformType)\<close> holds by typing, so that no branch raises.
\<close>

definition Target_get_platform_install_info ::
  "Target \<Rightarrow> PlatformType \<Rightarrow> error + PlatformInstallInfo" where
  "Target_get_platform_install_info t platform_type =
     (case map_of (t_platforms t) platform_type of
        Some v \<Rightarrow> Inr v
      | None \<Rightarrow> Inr (new_info NOT_EXIST))"

section \<open>Class \<^verbatim>\<open>Target\<close>: construction\<close>

text \<open>
  The keyword arguments of the constructor are strings by name. Lines 46 to 57: the default of
  \<^verbatim>\<open>kwargs.get("boot_dir", os.path.join(self._rootfsDir, "boot"))\<close> is computed in any case and
  raises when \<^verbatim>\<open>rootfs_dir\<close> is missing; \<^verbatim>\<open>kwargs.get["obj"]\<close> subscripts a method and raises.
\<close>

definition Target_init_attrs ::
  "TargetType \<Rightarrow> TargetAccessMode \<Rightarrow> (string \<times> string) list \<Rightarrow> error + Target" where
  "Target_init_attrs target_type target_access_mode kwargs =
     (case target_type of
        MOUNTED_HDD_DEV \<Rightarrow>
          (case map_of kwargs ''rootfs_dir'' of
             None \<Rightarrow> Inl TypeError
           | Some rootfsDir \<Rightarrow>
               (case map_of kwargs ''dev'' of
                  None \<Rightarrow> Inl KeyError
                | Some dev \<Rightarrow>
                    Inr \<lparr>t_targetType = target_type, t_mode = target_access_mode,
                         t_bootDir = (case map_of kwargs ''boot_dir'' of
                                        Some b \<Rightarrow> b
                                      | None \<Rightarrow> os_path_join rootfsDir ''boot''),
                         t_dev = Some dev, t_platforms = []\<rparr>))
      | PYCDLIB_OBJ \<Rightarrow>
          if \<not> (target_access_mode = R \<or> target_access_mode = W) then Inl AssertionError
          else Inl TypeError
      | ISO_DIR \<Rightarrow>
          (case map_of kwargs ''dir'' of
             None \<Rightarrow> Inl KeyError
           | Some dir \<Rightarrow>
               Inr \<lparr>t_targetType = target_type, t_mode = target_access_mode,
                    t_bootDir = os_path_join dir ''boot'', t_dev = None, t_platforms = []\<rparr>))"

text \<open>
  Lines 64 to 70 and 75 to 81: the verification of every entry of the dict, in the order of the
  dict. A verification that raises ends the loop, and one that does not return ends everything.
  The cache of \<^verbatim>\<open>filecmp\<close> goes from one verification to the next.
\<close>

fun check_platforms ::
  "env \<Rightarrow> TargetType \<Rightarrow> world \<Rightarrow> string option \<Rightarrow> filecmp_cache
   \<Rightarrow> (PlatformType \<times> PlatformInstallInfo) list
   \<Rightarrow> ((error + (PlatformType \<times> PlatformInstallInfo) list) \<times> filecmp_cache) option" where
  "check_platforms E target_type w dev cache [] = Some (Inr [], cache)"
| "check_platforms E target_type w dev cache ((k, v) # kvs) =
     (case (if k = I386_PC
            then (case Bios_check_and_fill_platform_install_info E k v target_type w dev of
                    None \<Rightarrow> None
                  | Some r \<Rightarrow> Some (r, cache))
            else if Handy_isPlatformEfi E k
            then Some (Efi_check_and_fill_platform_install_info E k v target_type w cache)
            else Some (Inl AssertionError, cache)) of
        None \<Rightarrow> None
      | Some (Inl e, cache1) \<Rightarrow> Some (Inl e, cache1)
      | Some (Inr v', cache1) \<Rightarrow>
          (case check_platforms E target_type w dev cache1 kvs of
             None \<Rightarrow> None
           | Some (Inl e, cache2) \<Rightarrow> Some (Inl e, cache2)
           | Some (Inr kvs', cache2) \<Rightarrow> Some (Inr ((k, v') # kvs'), cache2)))"

text \<open>
  \<^verbatim>\<open>Target.__init__\<close> on the world \<open>w\<close>, whose tree is the one below the boot directory of the
  target, in a process whose \<^verbatim>\<open>filecmp\<close> cache is \<open>cache\<close>. The result carries the cache that the
  call leaves. \<open>None\<close>: the constructor does not return.
\<close>

definition Target_init ::
  "env \<Rightarrow> TargetType \<Rightarrow> TargetAccessMode \<Rightarrow> (string \<times> string) list \<Rightarrow> world \<Rightarrow> filecmp_cache
   \<Rightarrow> ((error + Target) \<times> filecmp_cache) option" where
  "Target_init E target_type target_access_mode kwargs w cache =
     (case Target_init_attrs target_type target_access_mode kwargs of
        Inl e \<Rightarrow> Some (Inl e, cache)
      | Inr t \<Rightarrow>
          if target_access_mode = R \<or> target_access_mode = RW
          then
            (case target_type of
               MOUNTED_HDD_DEV \<Rightarrow>
                 (case Common_init_platforms E (boot w) (t_platforms t) of
                    Inl e \<Rightarrow> Some (Inl e, cache)
                  | Inr ps \<Rightarrow>
                      (case check_platforms E target_type w (t_dev t) cache ps of
                         None \<Rightarrow> None
                       | Some (Inl e, cache') \<Rightarrow> Some (Inl e, cache')
                       | Some (Inr ps', cache') \<Rightarrow>
                           Some (Inr (t\<lparr>t_platforms := ps'\<rparr>), cache')))
             | PYCDLIB_OBJ \<Rightarrow> Some (Inl AssertionError, cache)
             | ISO_DIR \<Rightarrow>
                 (case Common_init_platforms E (boot w) (t_platforms t) of
                    Inl e \<Rightarrow> Some (Inl e, cache)
                  | Inr ps \<Rightarrow>
                      (case check_platforms E target_type w None cache ps of
                         None \<Rightarrow> None
                       | Some (Inl e, cache') \<Rightarrow> Some (Inl e, cache')
                       | Some (Inr ps', cache') \<Rightarrow>
                           Some (Inr (t\<lparr>t_platforms := ps'\<rparr>), cache'))))
          else Some (Inr t, cache))"

section \<open>Class \<^verbatim>\<open>Target\<close>: the operations\<close>

text \<open>
  An operation maps the target and the world to its outcome, the target and the world it leaves,
  also when it raises. The keyword arguments of \<^verbatim>\<open>install_platform\<close> are truth values by name.
\<close>

definition kwargs_get :: "(string \<times> bool) list \<Rightarrow> string \<Rightarrow> bool \<Rightarrow> bool" where
  "kwargs_get kwargs k d = (case map_of kwargs k of Some v \<Rightarrow> v | None \<Rightarrow> d)"

definition write_capable :: "Target \<Rightarrow> bool" where
  "write_capable t = (t_mode t = RW \<or> t_mode t = W)"

definition read_capable :: "Target \<Rightarrow> bool" where
  "read_capable t = (t_mode t = R \<or> t_mode t = RW)"

text \<open>
  Lines 120 to 130 and 135 to 145: the two branches of \<^verbatim>\<open>install_platform\<close> differ in
  \<^verbatim>\<open>bInstallMbr\<close> only. Reading \<^verbatim>\<open>self._dev\<close> raises on a target that never set it.
\<close>

definition install_dispatch ::
  "env \<Rightarrow> Target \<Rightarrow> PlatformType \<Rightarrow> Source \<Rightarrow> (string \<times> bool) list \<Rightarrow> bool \<Rightarrow> world
   \<Rightarrow> (error + PlatformInstallInfo) \<times> world" where
  "install_dispatch E t platform_type source kwargs bInstallMbr w =
     (case Common_install_platform E t platform_type source (boot w) of
        (Inl e, n1) \<Rightarrow> (Inl e, w\<lparr>boot := n1\<rparr>)
      | (Inr moduleList, n1) \<Rightarrow>
          if platform_type = I386_PC
          then
            (case t_dev t of
               None \<Rightarrow> (Inl AttributeError, w\<lparr>boot := n1\<rparr>)
             | Some dev \<Rightarrow>
                 Bios_install_platform E platform_type (new_info BOOTABLE) source
                   (w\<lparr>boot := n1\<rparr>) dev bInstallMbr False
                   (kwargs_get kwargs ''allow_floppy'' False)
                   (kwargs_get kwargs ''rs_codes'' True))
          else if Handy_isPlatformEfi E platform_type
          then
            (case Efi_install_platform E platform_type (new_info BOOTABLE) source n1 of
               (r, n2) \<Rightarrow> (r, w\<lparr>boot := n2\<rparr>))
          else (Inl AssertionError, w\<lparr>boot := n1\<rparr>))"

definition Target_install_platform ::
  "env \<Rightarrow> Target \<Rightarrow> PlatformType \<Rightarrow> Source \<Rightarrow> (string \<times> bool) list \<Rightarrow> world
   \<Rightarrow> (error + unit) \<times> Target \<times> world" where
  "Target_install_platform E t platform_type source kwargs w =
     (if \<not> write_capable t then (Inl AssertionError, t, w)
      else
        (case Target_get_platform_install_info t platform_type of
           Inl e \<Rightarrow> (Inl e, t, w)
         | Inr info \<Rightarrow>
             if \<not> status info \<noteq> BOOTABLE then (Inl AssertionError, t, w)
             else
               (case (case t_targetType t of
                        MOUNTED_HDD_DEV \<Rightarrow>
                          install_dispatch E t platform_type source kwargs True w
                      | PYCDLIB_OBJ \<Rightarrow> (Inl AssertionError, w)
                      | ISO_DIR \<Rightarrow>
                          install_dispatch E t platform_type source kwargs False w) of
                  (Inl e, w') \<Rightarrow> (Inl e, t, w')
                | (Inr ret, w') \<Rightarrow>
                    (Inr (), t\<lparr>t_platforms := AList.update platform_type ret (t_platforms t)\<rparr>,
                     w'))))"

definition Target_remove_platform ::
  "env \<Rightarrow> Target \<Rightarrow> PlatformType \<Rightarrow> world \<Rightarrow> (error + unit) \<times> Target \<times> world" where
  "Target_remove_platform E t platform_type w =
     (if \<not> write_capable t then (Inl AssertionError, t, w)
      else
        (case (case t_targetType t of
                 MOUNTED_HDD_DEV \<Rightarrow>
                   (case (if platform_type = I386_PC
                          then (Inr (), boot (Bios_remove_platform platform_type (t_dev t) w))
                          else if Handy_isPlatformEfi E platform_type
                          then Efi_remove_platform E platform_type (boot w)
                          else (Inl AssertionError, boot w)) of
                      (Inl e, n1) \<Rightarrow> (Inl e, n1)
                    | (Inr u, n1) \<Rightarrow> (Inr (), Common_remove_platform E platform_type n1))
               | PYCDLIB_OBJ \<Rightarrow> (Inl AssertionError, boot w)
               | ISO_DIR \<Rightarrow> (Inr (), Common_remove_platform E platform_type (boot w))) of
           (Inl e, n') \<Rightarrow> (Inl e, t, w\<lparr>boot := n'\<rparr>)
         | (Inr u, n') \<Rightarrow>
             (Inr (),
              (if map_of (t_platforms t) platform_type \<noteq> None
               then t\<lparr>t_platforms := AList.delete platform_type (t_platforms t)\<rparr>
               else t),
              w\<lparr>boot := n'\<rparr>)))"

text \<open>One optional copy of \<^verbatim>\<open>install_data\<close>: nothing is done for \<^verbatim>\<open>None\<close>.\<close>

definition copy_if_given ::
  "(string list \<Rightarrow> node \<Rightarrow> (error + unit) \<times> node) \<Rightarrow> string list option \<Rightarrow> node
   \<Rightarrow> (error + unit) \<times> node" where
  "copy_if_given f arg n = (case arg of None \<Rightarrow> (Inr (), n) | Some a \<Rightarrow> f a n)"

definition Target_install_data ::
  "env \<Rightarrow> Target \<Rightarrow> Source \<Rightarrow> string list option \<Rightarrow> string list option \<Rightarrow> string list option
   \<Rightarrow> world \<Rightarrow> (error + unit) \<times> Target \<times> world" where
  "Target_install_data E t source locales fonts themes w =
     (if \<not> write_capable t then (Inl AssertionError, t, w)
      else
        (case force_mkdir [''grub''] (boot w) of
           Inl e \<Rightarrow> (Inl e, t, w)
         | Inr n1 \<Rightarrow>
             (case copy_if_given (Grub_copyLocaleFiles E source) locales n1 of
                (Inl e, n2) \<Rightarrow> (Inl e, t, w\<lparr>boot := n2\<rparr>)
              | (Inr u, n2) \<Rightarrow>
                  (case copy_if_given (Grub_copyFontFiles E source) fonts n2 of
                     (Inl e, n3) \<Rightarrow> (Inl e, t, w\<lparr>boot := n3\<rparr>)
                   | (Inr u, n3) \<Rightarrow>
                       (case copy_if_given (Grub_copyThemeFiles E source) themes n3 of
                          (r, n4) \<Rightarrow> (r, t, w\<lparr>boot := n4\<rparr>))))))"

definition Target_remove_data :: "Target \<Rightarrow> world \<Rightarrow> (error + unit) \<times> Target \<times> world" where
  "Target_remove_data t w =
     (if \<not> write_capable t then (Inl AssertionError, t, w)
      else (Inr (), t,
            w\<lparr>boot := force_rm [''grub'', ''themes'']
                        (force_rm [''grub'', ''fonts'']
                          (force_rm [''grub'', ''locale''] (boot w)))\<rparr>))"

definition Target_touch_env_file ::
  "env \<Rightarrow> Target \<Rightarrow> world \<Rightarrow> (error + unit) \<times> Target \<times> world" where
  "Target_touch_env_file E t w =
     (if \<not> write_capable t then (Inl AssertionError, t, w)
      else if \<not> os_path_exists (boot w) [''grub'', ''grubenv'']
      then (case Grub_createEnvBlkFile E [''grub'', ''grubenv''] (boot w) of
              (r, n1) \<Rightarrow> (r, t, w\<lparr>boot := n1\<rparr>))
      else (Inr (), t, w))"

definition Target_remove_env_file :: "Target \<Rightarrow> world \<Rightarrow> (error + unit) \<times> Target \<times> world" where
  "Target_remove_env_file t w =
     (if \<not> write_capable t then (Inl AssertionError, t, w)
      else (Inr (), t, w\<lparr>boot := force_rm [''grub'', ''grubenv''] (boot w)\<rparr>))"

text \<open>The loop of \<^verbatim>\<open>remove_all\<close> over \<^verbatim>\<open>list(self._platforms.keys())\<close>.\<close>

fun remove_platforms ::
  "env \<Rightarrow> PlatformType list \<Rightarrow> Target \<Rightarrow> world \<Rightarrow> (error + unit) \<times> Target \<times> world" where
  "remove_platforms E [] t w = (Inr (), t, w)"
| "remove_platforms E (k # ks) t w =
     (case Target_remove_platform E t k w of
        (Inl e, t1, w1) \<Rightarrow> (Inl e, t1, w1)
      | (Inr u, t1, w1) \<Rightarrow> remove_platforms E ks t1 w1)"

definition Target_remove_all ::
  "env \<Rightarrow> Target \<Rightarrow> world \<Rightarrow> (error + unit) \<times> Target \<times> world" where
  "Target_remove_all E t w =
     (if \<not> write_capable t then (Inl AssertionError, t, w)
      else
        (case remove_platforms E (map fst (t_platforms t)) t w of
           (Inl e, t1, w1) \<Rightarrow> (Inl e, t1, w1)
         | (Inr u, t1, w1) \<Rightarrow>
             (Inr (), t1,
              w1\<lparr>boot := Common_remove_remaining_crufts
                           (Efi_remove_remaining_crufts (boot w1))\<rparr>)))"

definition Target_check :: "Target \<Rightarrow> bool \<Rightarrow> world \<Rightarrow> (error + unit) \<times> Target \<times> world" where
  "Target_check t auto_fix w =
     (if \<not> read_capable t then (Inl AssertionError, t, w)
      else
        (case t_targetType t of
           MOUNTED_HDD_DEV \<Rightarrow> (Common_check t (boot w) auto_fix, t, w)
         | PYCDLIB_OBJ \<Rightarrow> (Inl AssertionError, t, w)
         | ISO_DIR \<Rightarrow> (Common_check t (boot w) auto_fix, t, w)))"

definition Target_check_with_source ::
  "Target \<Rightarrow> Source \<Rightarrow> bool \<Rightarrow> world \<Rightarrow> (error + unit) \<times> Target \<times> world" where
  "Target_check_with_source t source auto_fix w =
     (if \<not> read_capable t then (Inl AssertionError, t, w)
      else
        (case t_targetType t of
           MOUNTED_HDD_DEV \<Rightarrow> (Common_check_with_source t source auto_fix, t, w)
         | PYCDLIB_OBJ \<Rightarrow> (Inl AssertionError, t, w)
         | ISO_DIR \<Rightarrow> (Common_check_with_source t source auto_fix, t, w)))"

section \<open>Sequences of operations\<close>

datatype op =
    Install_platform PlatformType Source "(string \<times> bool) list"
  | Remove_platform PlatformType
  | Install_data Source "string list option" "string list option" "string list option"
  | Remove_data
  | Touch_env_file
  | Remove_env_file
  | Remove_all
  | Check bool
  | Check_with_source Source bool

fun apply_op :: "env \<Rightarrow> op \<Rightarrow> Target \<Rightarrow> world \<Rightarrow> (error + unit) \<times> Target \<times> world" where
  "apply_op E (Install_platform pt source kwargs) t w =
     Target_install_platform E t pt source kwargs w"
| "apply_op E (Remove_platform pt) t w = Target_remove_platform E t pt w"
| "apply_op E (Install_data source locales fonts themes) t w =
     Target_install_data E t source locales fonts themes w"
| "apply_op E Remove_data t w = Target_remove_data t w"
| "apply_op E Touch_env_file t w = Target_touch_env_file E t w"
| "apply_op E Remove_env_file t w = Target_remove_env_file t w"
| "apply_op E Remove_all t w = Target_remove_all E t w"
| "apply_op E (Check auto_fix) t w = Target_check t auto_fix w"
| "apply_op E (Check_with_source source auto_fix) t w =
     Target_check_with_source t source auto_fix w"

text \<open>
  A caller may go on with the target after an operation has raised: the next operation starts
  from what the last one left.
\<close>

fun run :: "env \<Rightarrow> op list \<Rightarrow> Target \<Rightarrow> world \<Rightarrow> Target \<times> world" where
  "run E [] t w = (t, w)"
| "run E (x # xs) t w = (case apply_op E x t w of (r, t1, w1) \<Rightarrow> run E xs t1 w1)"

text \<open>
  The calls of \<^verbatim>\<open>install_platform\<close> and \<^verbatim>\<open>remove_platform\<close> that return without raising, in the
  order in which they return. \<^verbatim>\<open>remove_all\<close> calls \<^verbatim>\<open>remove_platform\<close> for every key until a call
  raises.
\<close>

datatype key_event = Installed PlatformType | Removed PlatformType

fun loop_events :: "env \<Rightarrow> PlatformType list \<Rightarrow> Target \<Rightarrow> world \<Rightarrow> key_event list" where
  "loop_events E [] t w = []"
| "loop_events E (k # ks) t w =
     (case Target_remove_platform E t k w of
        (Inl e, t1, w1) \<Rightarrow> []
      | (Inr u, t1, w1) \<Rightarrow> Removed k # loop_events E ks t1 w1)"

fun op_events :: "env \<Rightarrow> op \<Rightarrow> Target \<Rightarrow> world \<Rightarrow> key_event list" where
  "op_events E (Install_platform pt source kwargs) t w =
     (case fst (Target_install_platform E t pt source kwargs w) of
        Inl e \<Rightarrow> []
      | Inr u \<Rightarrow> [Installed pt])"
| "op_events E (Remove_platform pt) t w =
     (case fst (Target_remove_platform E t pt w) of Inl e \<Rightarrow> [] | Inr u \<Rightarrow> [Removed pt])"
| "op_events E Remove_all t w =
     (if write_capable t then loop_events E (map fst (t_platforms t)) t w else [])"
| "op_events E x t w = []"

fun run_events :: "env \<Rightarrow> op list \<Rightarrow> Target \<Rightarrow> world \<Rightarrow> key_event list" where
  "run_events E [] t w = []"
| "run_events E (x # xs) t w =
     op_events E x t w @ (case apply_op E x t w of (r, t1, w1) \<Rightarrow> run_events E xs t1 w1)"

text \<open>
  The platforms with evidence after a list of events: a completed install adds the platform, a
  completed removal takes it away.
\<close>

fun replay :: "key_event list \<Rightarrow> PlatformType set \<Rightarrow> PlatformType set" where
  "replay [] S = S"
| "replay (Installed pt # es) S = replay es (insert pt S)"
| "replay (Removed pt # es) S = replay es (S - {pt})"

text \<open>
  The platforms whose directory the scan of the constructor finds in the grub directory; the
  constructor scans in the modes \<open>R\<close> and \<open>RW\<close> only.
\<close>

definition scan_found :: "env \<Rightarrow> TargetAccessMode \<Rightarrow> world \<Rightarrow> PlatformType set" where
  "scan_found E m w =
     (if m = R \<or> m = RW
      then {pt \<in> set (PlatformType_members E).
              os_path_isdir (boot w) [''grub'', PlatformType_value E pt]}
      else {})"

text \<open>Every entry of the grub directory that is named like a platform is a directory.\<close>

definition platform_entries_are_dirs :: "env \<Rightarrow> world \<Rightarrow> bool" where
  "platform_entries_are_dirs E w =
     (\<forall>pt \<in> set (PlatformType_members E).
        os_path_exists (boot w) [''grub'', PlatformType_value E pt]
        \<longrightarrow> os_path_isdir (boot w) [''grub'', PlatformType_value E pt])"

section \<open>An environment for the concrete cases\<close>

text \<open>
  One choice of what the other modules provide: the sector size and the offsets of GRUB
  (\<^verbatim>\<open>GRUB_DISK_SECTOR_SIZE\<close> and the \<^verbatim>\<open>GRUB_BOOT_MACHINE_*\<close> constants for the PC), five platforms,
  a mount of type vfat, and external functions that write the files they are asked for.
\<close>

definition X86_64_EFI :: PlatformType where
  "X86_64_EFI = Platform ''X86_64_EFI''"

definition I386_EFI :: PlatformType where
  "I386_EFI = Platform ''I386_EFI''"

definition value0 :: "PlatformType \<Rightarrow> string" where
  "value0 pt =
     (if pt = I386_PC then ''i386-pc''
      else if pt = I386_MULTIBOOT then ''i386-multiboot''
      else if pt = MIPSEL_LOONGSON then ''mipsel-loongson''
      else if pt = X86_64_EFI then ''x86_64-efi''
      else if pt = I386_EFI then ''i386-efi''
      else ''unknown'')"

definition E0 :: env where
  "E0 = \<lparr>
     PlatformType_members = [I386_PC, I386_MULTIBOOT, MIPSEL_LOONGSON, X86_64_EFI, I386_EFI],
     PlatformType_value = value0,
     Handy_isPlatformEfi = (\<lambda>pt. pt = X86_64_EFI \<or> pt = I386_EFI),
     Handy_isPlatformCoreboot = (\<lambda>pt. False),
     Handy_isPlatformQemu = (\<lambda>pt. False),
     Handy_getStandardEfiFilename =
       (\<lambda>pt. if pt = X86_64_EFI then ''BOOTX64.EFI'' else ''BOOTIA32.EFI''),
     Grub_DISK_SECTOR_SIZE = 0x200,
     Grub_BOOT_MACHINE_BPB_START = 0x3,
     Grub_BOOT_MACHINE_BPB_END = 0x5a,
     Grub_BOOT_MACHINE_DRIVE_CHECK = 0x66,
     Grub_BOOT_MACHINE_WINDOWS_NT_MAGIC = 0x1b8,
     Grub_BOOT_MACHINE_PART_END = 0x1fe,
     Grub_probeMnt =
       (\<lambda>bootDir. Inr \<lparr>mnt_fs = ''vfat'', mnt_fs_uuid = Some ''ABCD-1234'', mnt_mnt_pt = ''/mnt''\<rparr>),
     Grub_getGrubFsName = (\<lambda>fs. Inr (if fs = ''vfat'' then ''fat'' else fs)),
     Grub_copyPlatformFiles =
       (\<lambda>pt source n. case force_mkdir [''grub''] n of
                         Inl e \<Rightarrow> (Inl e, n)
                       | Inr n1 \<Rightarrow> (case force_mkdir [''grub'', value0 pt] n1 of
                                      Inl e \<Rightarrow> (Inl e, n1)
                                    | Inr n2 \<Rightarrow> (Inr (), n2))),
     Grub_getCoreImgNameAndTarget = (''core.img'', ''image''),
     Grub_makeCoreImage =
       (\<lambda>source pt loadCfg target modules out n.
          case write_file out (str_bytes (concat modules)) n of
            Inl e \<Rightarrow> (Inl e, n)
          | Inr n1 \<Rightarrow> (Inr (), n1)),
     Grub_copyLocaleFiles = (\<lambda>source names n. (Inr (), n)),
     Grub_copyFontFiles = (\<lambda>source names n. (Inr (), n)),
     Grub_copyThemeFiles = (\<lambda>source names n. (Inr (), n)),
     Grub_createEnvBlkFile =
       (\<lambda>p n. case write_file p [] n of Inl e \<Rightarrow> (Inl e, n) | Inr n1 \<Rightarrow> (Inr (), n1)),
     parted_newDisk =
       (\<lambda>dev. Inr \<lparr>pd_type = ''msdos'', pd_primaryStarts = [], pd_sectorSize = 512\<rparr>)
   \<rparr>"

definition source0 :: Source where
  "source0 = \<lparr>platform_file = (\<lambda>pt name. if name = ''boot.img'' then Some (replicate 512 0)
                                         else None)\<rparr>"

section \<open>Concrete boot sectors\<close>

text \<open>The local variables that a pass of a loop leaves.\<close>

fun step_state :: "'a loop_step \<Rightarrow> 'a" where
  "step_state (Break s) = s"
| "step_state (Next s) = s"

text \<open>
  A sector of 512 bytes with the bytes \<open>a\<close> and \<open>b\<close> at the drive check (offset \<open>0x66\<close>), a core
  image of one sector, and the world with a boot image, that core image, and a disk that holds
  the sector \<open>sector\<close> followed by the core image.
\<close>

definition sector_with :: "byte \<Rightarrow> byte \<Rightarrow> byte list" where
  "sector_with a b = replicate 0x66 0 @ [a, b] @ replicate 408 0"

definition core0 :: "byte list" where
  "core0 = replicate 512 1"

definition bios_world :: "byte list \<Rightarrow> byte list \<Rightarrow> world" where
  "bios_world bootBuf sector =
     \<lparr>boot = Dir [(''grub'', Dir [(''boot.img'', File bootBuf), (''core.img'', File core0)])],
      devs = [(''/dev/sda'', sector @ core0)], mtime = (\<lambda>p. 0)\<rparr>"

section \<open>Concrete targets and worlds\<close>

text \<open>
  A boot directory with the core image of the platform \<open>X86_64_EFI\<close> and an installed EFI file; a
  mounted-device target on \<^verbatim>\<open>/dev/sda\<close>; a boot directory that is empty; a payload whose boot image
  has 100 bytes; and a boot directory that holds a core image only.
\<close>

definition efi_world :: "byte list \<Rightarrow> byte list \<Rightarrow> world" where
  "efi_world core efi =
     \<lparr>boot = Dir [(''grub'', Dir [(''x86_64-efi'', Dir [(''core.img'', File core)])]),
                 (''EFI'', Dir [(''BOOT'', Dir [(''BOOTX64.EFI'', File efi)])])],
      devs = [(''/dev/sda'', [])], mtime = (\<lambda>p. 0)\<rparr>"

text \<open>
  The cache of \<^verbatim>\<open>filecmp\<close> after one comparison of the core image and the installed file of
  \<open>X86_64_EFI\<close>, of three bytes each, that found them equal.
\<close>

definition stale_cache :: filecmp_cache where
  "stale_cache =
     [(([''grub'', ''x86_64-efi'', ''core.img''], [''EFI'', ''BOOT'', ''BOOTX64.EFI''],
        (S_IFREG, 3, 0), (S_IFREG, 3, 0)), True)]"

definition hdd_target :: "TargetAccessMode \<Rightarrow> Target" where
  "hdd_target m = \<lparr>t_targetType = MOUNTED_HDD_DEV, t_mode = m, t_bootDir = ''/mnt/boot'',
     t_dev = Some ''/dev/sda'', t_platforms = []\<rparr>"

definition empty_world :: world where
  "empty_world = \<lparr>boot = Dir [], devs = [(''/dev/sda'', replicate 1024 0)], mtime = (\<lambda>p. 0)\<rparr>"

definition source_short :: Source where
  "source_short = \<lparr>platform_file = (\<lambda>pt name. Some (replicate 100 0))\<rparr>"

definition core_world :: "byte list \<Rightarrow> world" where
  "core_world core =
     \<lparr>boot = Dir [(''grub'', Dir [(''core.img'', File core)])],
      devs = [(''/dev/sda'', replicate 1024 0)], mtime = (\<lambda>p. 0)\<rparr>"

text \<open>
  The keyword arguments of a mounted-device target, and the target that the constructor builds
  from them on the boot directory with the EFI platform.
\<close>

definition hdd_kwargs :: "(string \<times> string) list" where
  "hdd_kwargs = [(''rootfs_dir'', ''/mnt''), (''dev'', ''/dev/sda'')]"

definition efi_target :: Target where
  "efi_target = \<lparr>t_targetType = MOUNTED_HDD_DEV, t_mode = RW, t_bootDir = ''/mnt/boot'',
     t_dev = Some ''/dev/sda'',
     t_platforms = [(X86_64_EFI,
       (new_info BOOTABLE)\<lparr>removable := Some True, nvram := Some False\<rparr>)]\<rparr>"

text \<open>The platforms that have an entry in the platform map.\<close>

abbreviation keys :: "Target \<Rightarrow> PlatformType set" where
  "keys t \<equiv> fst ` set (t_platforms t)"

section \<open>Theorems\<close>

text \<open>
  C4. For a platform with no entry in the platform map, \<^verbatim>\<open>get_platform_install_info\<close> raises
  nothing and returns a fresh record whose status is \<open>NOT_EXIST\<close>.
\<close>

theorem get_platform_install_info_absent:
  assumes "map_of (t_platforms t) pt = None"
  shows "\<exists>v. Target_get_platform_install_info t pt = Inr v \<and> status v = NOT_EXIST"
  using assms by (simp add: Target_get_platform_install_info_def new_info_def)

theorem get_platform_install_info_absent_witness:
  "map_of (t_platforms \<lparr>t_targetType = ISO_DIR, t_mode = W, t_bootDir = ''/mnt/boot'',
      t_dev = None, t_platforms = []\<rparr>) I386_PC = None
   \<and> (\<exists>v. Target_get_platform_install_info \<lparr>t_targetType = ISO_DIR, t_mode = W,
      t_bootDir = ''/mnt/boot'', t_dev = None, t_platforms = []\<rparr> I386_PC = Inr v
      \<and> status v = NOT_EXIST)"
  using get_platform_install_info_absent
    [of "\<lparr>t_targetType = ISO_DIR, t_mode = W, t_bootDir = ''/mnt/boot'',
      t_dev = None, t_platforms = []\<rparr>" I386_PC]
  by simp

subsection \<open>The loop\<close>

lemma while_True_Break: "body st = Inr (Break st') \<Longrightarrow> while_True body st = Some (Inr st')"
  by (subst while_True.simps) simp

lemma while_True_raise: "body st = Inl e \<Longrightarrow> while_True body st = Some (Inl e)"
  by (subst while_True.simps) simp

lemma while_True_Some_leaves:
  assumes "while_True body st = Some y"
  shows "(\<forall>s\<in>S. \<exists>s'\<in>S. body s = Inr (Next s')) \<longrightarrow> st \<notin> S"
proof (rule while_True.raw_induct
    [where P = "\<lambda>body st y. (\<forall>s\<in>S. \<exists>s'\<in>S. body s = Inr (Next s')) \<longrightarrow> st \<notin> S",
      OF _ assms])
  fix loop :: "('a \<Rightarrow> error + 'a loop_step) \<Rightarrow> 'a \<Rightarrow> (error + 'a) option"
    and body st y
  assume IH: "\<And>b s z. loop b s = Some z \<Longrightarrow>
      (\<forall>s\<in>S. \<exists>s'\<in>S. b s = Inr (Next s')) \<longrightarrow> s \<notin> S"
    and step: "(case body st of Inl e \<Rightarrow> Some (Inl e)
        | Inr (Break st') \<Rightarrow> Some (Inr st')
        | Inr (Next st') \<Rightarrow> loop body st') = Some y"
  show "(\<forall>s\<in>S. \<exists>s'\<in>S. body s = Inr (Next s')) \<longrightarrow> st \<notin> S"
  proof (intro impI notI)
    assume cl: "\<forall>s\<in>S. \<exists>s'\<in>S. body s = Inr (Next s')" and "st \<in> S"
    then obtain s' where s': "s' \<in> S" "body st = Inr (Next s')" by blast
    with step have "loop body s' = Some y" by simp
    from IH[OF this] cl s' show False by blast
  qed
qed

lemma while_True_never:
  assumes "\<forall>s\<in>S. \<exists>s'\<in>S. body s = Inr (Next s')" and "st \<in> S"
  shows "while_True body st = None"
proof (cases "while_True body st")
  case None then show ?thesis .
next
  case (Some y)
  from while_True_Some_leaves[OF this, of S] assms show ?thesis by blast
qed

subsection \<open>BIOS verification\<close>

lemma Bios_check_pass_Next:
  assumes "lookup (boot w) [''grub'', ''boot.img''] = Some (File bootBuf)"
    and "length bootBuf = Grub_DISK_SECTOR_SIZE E"
    and "lookup (boot w) [''grub'', ''core.img''] = Some (File coreBuf)"
    and "Grub_DISK_SECTOR_SIZE E \<le> length coreBuf"
    and "length coreBuf \<le> Bios_getMbrGapSizeThreshold"
    and "open_rb w dev = Inr f"
    and "take (Grub_BOOT_MACHINE_BPB_START E) (take (Grub_DISK_SECTOR_SIZE E) f)
         = take (Grub_BOOT_MACHINE_BPB_START E) bootBuf"
    and "slice (Grub_BOOT_MACHINE_BPB_END E) (Grub_BOOT_MACHINE_DRIVE_CHECK E)
           (take (Grub_DISK_SECTOR_SIZE E) f)
         = slice (Grub_BOOT_MACHINE_BPB_END E) (Grub_BOOT_MACHINE_DRIVE_CHECK E) bootBuf"
    and "drive_check (take (Grub_DISK_SECTOR_SIZE E) f) bootBuf
           (Grub_BOOT_MACHINE_DRIVE_CHECK E) (Grub_BOOT_MACHINE_DRIVE_CHECK E + 2) = Some b"
    and "slice (Grub_BOOT_MACHINE_DRIVE_CHECK E + 2) (Grub_BOOT_MACHINE_WINDOWS_NT_MAGIC E)
           (take (Grub_DISK_SECTOR_SIZE E) f)
         = slice (Grub_BOOT_MACHINE_DRIVE_CHECK E + 2) (Grub_BOOT_MACHINE_WINDOWS_NT_MAGIC E)
             bootBuf"
    and "drop (Grub_BOOT_MACHINE_PART_END E) (take (Grub_DISK_SECTOR_SIZE E) f)
         = drop (Grub_BOOT_MACHINE_PART_END E) bootBuf"
    and "take (length coreBuf) (drop (Grub_DISK_SECTOR_SIZE E) f) = coreBuf"
  shows "Bios_check_pass E w dev st = Inr (Next (True, Some b))"
  using assms by (simp add: Bios_check_pass_def Let_def)

lemma Bios_check_loops:
  assumes "status info = BOOTABLE"
    and "\<And>st. \<exists>b. Bios_check_pass E w dev st = Inr (Next (True, Some b))"
  shows "Bios_check_and_fill_platform_install_info E pt info tt w dev = None"
proof -
  have "while_True (Bios_check_pass E w dev) (False, None) = None"
  proof (rule while_True_never[where S = UNIV])
    show "\<forall>s\<in>UNIV. \<exists>s'\<in>UNIV. Bios_check_pass E w dev s = Inr (Next s')"
      using assms(2) by (metis UNIV_I)
  qed simp
  with assms(1) show ?thesis
    by (simp add: Bios_check_and_fill_platform_install_info_def)
qed

lemma Bios_check_breaks:
  assumes "status info = BOOTABLE"
    and "Bios_check_pass E w dev (False, None) = Inr (Break (False, af))"
  shows "Bios_check_and_fill_platform_install_info E pt info tt w dev
         = Some (Inr (info\<lparr>status := EXIST\<rparr>))"
  using assms
  by (simp add: Bios_check_and_fill_platform_install_info_def while_True_Break)

text \<open>
  The call returns exactly when the first pass of the loop breaks or raises: a pass that reaches
  the end of the body is followed by passes that do the same.
\<close>

lemma Bios_check_pass_Next_any:
  assumes "Bios_check_pass E w dev st = Inr (Next s)"
  shows "\<exists>b. \<forall>st'. Bios_check_pass E w dev st' = Inr (Next (True, Some b))"
proof (cases "lookup (boot w) [''grub'', ''boot.img'']")
  case None
  with assms show ?thesis by (simp add: Bios_check_pass_def)
next
  case (Some nb)
  show ?thesis
  proof (cases nb)
    case (Dir es)
    with Some assms show ?thesis by (simp add: Bios_check_pass_def)
  next
    case (File bootBuf)
    note bootf = Some[unfolded File]
    show ?thesis
    proof (cases "length bootBuf = Grub_DISK_SECTOR_SIZE E")
      case False
      with bootf assms show ?thesis by (simp add: Bios_check_pass_def)
    next
      case len: True
      show ?thesis
      proof (cases "lookup (boot w) [''grub'', ''core.img'']")
        case None
        with bootf len assms show ?thesis by (simp add: Bios_check_pass_def)
      next
        case (Some nc)
        show ?thesis
        proof (cases nc)
          case (Dir es)
          with Some bootf len assms show ?thesis by (simp add: Bios_check_pass_def)
        next
          case (File coreBuf)
          note coref = Some[unfolded File]
          show ?thesis
          proof (cases "Grub_DISK_SECTOR_SIZE E \<le> length coreBuf
                        \<and> length coreBuf \<le> Bios_getMbrGapSizeThreshold")
            case False
            with coref bootf len assms show ?thesis by (simp add: Bios_check_pass_def)
          next
            case sz: True
            show ?thesis
            proof (cases "open_rb w dev")
              case (Inl e)
              with sz coref bootf len assms show ?thesis by (simp add: Bios_check_pass_def)
            next
              case (Inr f)
              from assms obtain b where
                "take (Grub_BOOT_MACHINE_BPB_START E) (take (Grub_DISK_SECTOR_SIZE E) f)
                 = take (Grub_BOOT_MACHINE_BPB_START E) bootBuf"
                "slice (Grub_BOOT_MACHINE_BPB_END E) (Grub_BOOT_MACHINE_DRIVE_CHECK E)
                   (take (Grub_DISK_SECTOR_SIZE E) f)
                 = slice (Grub_BOOT_MACHINE_BPB_END E) (Grub_BOOT_MACHINE_DRIVE_CHECK E) bootBuf"
                "drive_check (take (Grub_DISK_SECTOR_SIZE E) f) bootBuf
                   (Grub_BOOT_MACHINE_DRIVE_CHECK E) (Grub_BOOT_MACHINE_DRIVE_CHECK E + 2) = Some b"
                "slice (Grub_BOOT_MACHINE_DRIVE_CHECK E + 2) (Grub_BOOT_MACHINE_WINDOWS_NT_MAGIC E)
                   (take (Grub_DISK_SECTOR_SIZE E) f)
                 = slice (Grub_BOOT_MACHINE_DRIVE_CHECK E + 2)
                     (Grub_BOOT_MACHINE_WINDOWS_NT_MAGIC E) bootBuf"
                "drop (Grub_BOOT_MACHINE_PART_END E) (take (Grub_DISK_SECTOR_SIZE E) f)
                 = drop (Grub_BOOT_MACHINE_PART_END E) bootBuf"
                "take (length coreBuf) (drop (Grub_DISK_SECTOR_SIZE E) f) = coreBuf"
                using bootf len coref sz Inr
                by (auto simp: Bios_check_pass_def Let_def split: if_splits option.splits)
              with bootf len coref sz Inr
              have "\<And>st'. Bios_check_pass E w dev st' = Inr (Next (True, Some b))"
                by (intro Bios_check_pass_Next) simp_all
              then show ?thesis by blast
            qed
          qed
        qed
      qed
    qed
  qed
qed

lemma Bios_check_returns_iff:
  assumes "status info = BOOTABLE"
  shows "(Bios_check_and_fill_platform_install_info E pt info tt w dev = None)
       = (\<exists>s. Bios_check_pass E w dev (False, None) = Inr (Next s))"
proof
  assume "\<exists>s. Bios_check_pass E w dev (False, None) = Inr (Next s)"
  then obtain s where "Bios_check_pass E w dev (False, None) = Inr (Next s)" ..
  from Bios_check_pass_Next_any[OF this] obtain b where
    "\<And>st'. Bios_check_pass E w dev st' = Inr (Next (True, Some b))" by blast
  then show "Bios_check_and_fill_platform_install_info E pt info tt w dev = None"
    by (intro Bios_check_loops[OF assms]) blast
next
  assume n: "Bios_check_and_fill_platform_install_info E pt info tt w dev = None"
  show "\<exists>s. Bios_check_pass E w dev (False, None) = Inr (Next s)"
  proof (cases "Bios_check_pass E w dev (False, None)")
    case (Inl e)
    with while_True_raise[of "Bios_check_pass E w dev" "(False, None)" e] n assms show ?thesis
      by (simp add: Bios_check_and_fill_platform_install_info_def)
  next
    case (Inr r)
    show ?thesis
    proof (cases r)
      case (Break s)
      with Inr while_True_Break[of "Bios_check_pass E w dev" "(False, None)" s] n assms
      show ?thesis
        by (auto simp: Bios_check_and_fill_platform_install_info_def
            split: if_splits prod.splits)
    next
      case (Next s)
      with Inr show ?thesis by blast
    qed
  qed
qed

lemma E0_consts [simp]:
  "Grub_DISK_SECTOR_SIZE E0 = 512" "Grub_BOOT_MACHINE_BPB_START E0 = 3"
  "Grub_BOOT_MACHINE_BPB_END E0 = 90" "Grub_BOOT_MACHINE_DRIVE_CHECK E0 = 102"
  "Grub_BOOT_MACHINE_WINDOWS_NT_MAGIC E0 = 440" "Grub_BOOT_MACHINE_PART_END E0 = 510"
  by (simp_all add: E0_def)

lemma sector_with_length [simp]: "length (sector_with a b) = 512"
  by (simp add: sector_with_def)

lemma bios_world_simps [simp]:
  "lookup (boot (bios_world bb s)) [''grub'', ''boot.img''] = Some (File bb)"
  "lookup (boot (bios_world bb s)) [''grub'', ''core.img''] = Some (File core0)"
  "open_rb (bios_world bb s) (Some ''/dev/sda'') = Inr (s @ core0)"
  by (simp_all add: bios_world_def open_rb_def)

lemma core0_length [simp]: "length core0 = 512"
  by (simp add: core0_def)

lemma slice_sector_with [simp]:
  "slice 102 104 (sector_with a b) = [a, b]"
  "take 3 (sector_with a b) = replicate 3 0"
  "slice 90 102 (sector_with a b) = replicate 12 0"
  "slice 104 440 (sector_with a b) = replicate 336 0"
  "drop 510 (sector_with a b) = replicate 2 0"
  by (simp_all add: sector_with_def slice_def)

lemma take_sector [simp]: "take 512 (sector_with a b @ c) = sector_with a b"
  by simp

lemma drop_sector [simp]: "drop 512 (sector_with a b @ c) = c"
  by simp

lemma pass_at_sector:
  assumes "drive_check (sector_with a b) (sector_with c d) 102 104 = Some x"
  shows "Bios_check_pass E0 (bios_world (sector_with c d) (sector_with a b)) (Some ''/dev/sda'') st
    = Inr (Next (True, Some x))"
  by (rule Bios_check_pass_Next[where bootBuf = "sector_with c d" and coreBuf = core0
        and f = "sector_with a b @ core0"])
     (use assms in \<open>simp_all add: Bios_getMbrGapSizeThreshold_def\<close>)


lemma drive_check_Some:
  "slice s2 e2 tmpBuf = [0x90, 0x90] \<or> slice s2 e2 tmpBuf = slice s2 e2 bootBuf
   \<Longrightarrow> \<exists>b. drive_check tmpBuf bootBuf s2 e2 = Some b"
  by (auto simp: drive_check_def)

text \<open>
  C7. The claim is that BIOS verification returns on every input. It does not: when every check
  of the loop body passes, the body reaches its end with \<^verbatim>\<open>bOk = True\<close> and no \<^verbatim>\<open>break\<close>, the
  next pass reads the same files and the same device, and the call never returns.
\<close>

theorem bios_check_success_never_returns:
  assumes "status info = BOOTABLE"
    and "lookup (boot w) [''grub'', ''boot.img''] = Some (File bootBuf)"
    and "length bootBuf = Grub_DISK_SECTOR_SIZE E"
    and "lookup (boot w) [''grub'', ''core.img''] = Some (File coreBuf)"
    and "Grub_DISK_SECTOR_SIZE E \<le> length coreBuf"
    and "length coreBuf \<le> Bios_getMbrGapSizeThreshold"
    and "open_rb w dev = Inr f"
    and "take (Grub_BOOT_MACHINE_BPB_START E) (take (Grub_DISK_SECTOR_SIZE E) f)
         = take (Grub_BOOT_MACHINE_BPB_START E) bootBuf"
    and "slice (Grub_BOOT_MACHINE_BPB_END E) (Grub_BOOT_MACHINE_DRIVE_CHECK E)
           (take (Grub_DISK_SECTOR_SIZE E) f)
         = slice (Grub_BOOT_MACHINE_BPB_END E) (Grub_BOOT_MACHINE_DRIVE_CHECK E) bootBuf"
    and "slice (Grub_BOOT_MACHINE_DRIVE_CHECK E) (Grub_BOOT_MACHINE_DRIVE_CHECK E + 2)
           (take (Grub_DISK_SECTOR_SIZE E) f) = [0x90, 0x90]
         \<or> slice (Grub_BOOT_MACHINE_DRIVE_CHECK E) (Grub_BOOT_MACHINE_DRIVE_CHECK E + 2)
           (take (Grub_DISK_SECTOR_SIZE E) f)
           = slice (Grub_BOOT_MACHINE_DRIVE_CHECK E) (Grub_BOOT_MACHINE_DRIVE_CHECK E + 2) bootBuf"
    and "slice (Grub_BOOT_MACHINE_DRIVE_CHECK E + 2) (Grub_BOOT_MACHINE_WINDOWS_NT_MAGIC E)
           (take (Grub_DISK_SECTOR_SIZE E) f)
         = slice (Grub_BOOT_MACHINE_DRIVE_CHECK E + 2) (Grub_BOOT_MACHINE_WINDOWS_NT_MAGIC E)
             bootBuf"
    and "drop (Grub_BOOT_MACHINE_PART_END E) (take (Grub_DISK_SECTOR_SIZE E) f)
         = drop (Grub_BOOT_MACHINE_PART_END E) bootBuf"
    and "take (length coreBuf) (drop (Grub_DISK_SECTOR_SIZE E) f) = coreBuf"
  shows "Bios_check_and_fill_platform_install_info E platform_type info target_type w dev = None"
proof -
  from drive_check_Some[OF assms(10)] obtain b where
    b: "drive_check (take (Grub_DISK_SECTOR_SIZE E) f) bootBuf
          (Grub_BOOT_MACHINE_DRIVE_CHECK E) (Grub_BOOT_MACHINE_DRIVE_CHECK E + 2) = Some b"
    by blast
  have "\<And>st. Bios_check_pass E w dev st = Inr (Next (True, Some b))"
    by (rule Bios_check_pass_Next[OF assms(2-9) b assms(11-13)])
  then show ?thesis
    by (intro Bios_check_loops[OF assms(1)]) blast
qed

theorem bios_check_success_never_returns_witness:
  "status (new_info BOOTABLE) = BOOTABLE
   \<and> take 512 (sector_with 0 0 @ core0) = sector_with 0 0
   \<and> take (length core0) (drop 512 (sector_with 0 0 @ core0)) = core0
   \<and> Bios_check_and_fill_platform_install_info E0 I386_PC (new_info BOOTABLE) MOUNTED_HDD_DEV
       (bios_world (sector_with 0 0) (sector_with 0 0)) (Some ''/dev/sda'') = None"
  using bios_check_success_never_returns
    [of "new_info BOOTABLE" "bios_world (sector_with 0 0) (sector_with 0 0)" "sector_with 0 0"
      E0 core0 "Some ''/dev/sda''" "sector_with 0 0 @ core0" I386_PC MOUNTED_HDD_DEV]
  by (simp add: new_info_def Bios_getMbrGapSizeThreshold_def)

lemma Bios_check_pass_drive:
  assumes "lookup (boot w) [''grub'', ''boot.img''] = Some (File bootBuf)"
    and "length bootBuf = Grub_DISK_SECTOR_SIZE E"
    and "lookup (boot w) [''grub'', ''core.img''] = Some (File coreBuf)"
    and "Grub_DISK_SECTOR_SIZE E \<le> length coreBuf"
    and "length coreBuf \<le> Bios_getMbrGapSizeThreshold"
    and "open_rb w dev = Inr f"
    and "take (Grub_BOOT_MACHINE_BPB_START E) (take (Grub_DISK_SECTOR_SIZE E) f)
         = take (Grub_BOOT_MACHINE_BPB_START E) bootBuf"
    and "slice (Grub_BOOT_MACHINE_BPB_END E) (Grub_BOOT_MACHINE_DRIVE_CHECK E)
           (take (Grub_DISK_SECTOR_SIZE E) f)
         = slice (Grub_BOOT_MACHINE_BPB_END E) (Grub_BOOT_MACHINE_DRIVE_CHECK E) bootBuf"
    and "drive_check (take (Grub_DISK_SECTOR_SIZE E) f) bootBuf
           (Grub_BOOT_MACHINE_DRIVE_CHECK E) (Grub_BOOT_MACHINE_DRIVE_CHECK E + 2) = Some b"
  shows "\<exists>r. Bios_check_pass E w dev st = Inr r \<and> snd (step_state r) = Some b"
  using assms by (simp add: Bios_check_pass_def Let_def)

lemma Bios_check_pass_third:
  assumes "lookup (boot w) [''grub'', ''boot.img''] = Some (File bootBuf)"
    and "lookup (boot w) [''grub'', ''core.img''] = Some (File coreBuf)"
    and "open_rb w dev = Inr f"
    and "drive_check (take (Grub_DISK_SECTOR_SIZE E) f) bootBuf
           (Grub_BOOT_MACHINE_DRIVE_CHECK E) (Grub_BOOT_MACHINE_DRIVE_CHECK E + 2) = None"
  shows "Bios_check_pass E w dev st = Inr (Break st)"
  using assms by (simp add: Bios_check_pass_def Let_def)

text \<open>
  What a pass of the loop does at the drive check, when its earlier checks pass: for \<open>0x90 0x90\<close>
  on the device it sets \<^verbatim>\<open>bAllowFloppy\<close> to false and goes on to the later checks; otherwise, for
  the two bytes of the boot image, it sets \<^verbatim>\<open>bAllowFloppy\<close> to true and goes on; and for any other
  pair of bytes the call returns with the status \<open>EXIST\<close>.
\<close>

lemma drive_check_classification:
  fixes E :: env and w :: world and f bootBuf coreBuf :: "byte list"
  assumes bootf: "lookup (boot w) [''grub'', ''boot.img''] = Some (File bootBuf)"
    and coref: "lookup (boot w) [''grub'', ''core.img''] = Some (File coreBuf)"
    and devf: "open_rb w dev = Inr f"
  defines "tmpBuf \<equiv> take (Grub_DISK_SECTOR_SIZE E) f"
    and "s2 \<equiv> Grub_BOOT_MACHINE_DRIVE_CHECK E"
  defines "before_ok \<equiv>
      length bootBuf = Grub_DISK_SECTOR_SIZE E
      \<and> Grub_DISK_SECTOR_SIZE E \<le> length coreBuf
      \<and> length coreBuf \<le> Bios_getMbrGapSizeThreshold
      \<and> take (Grub_BOOT_MACHINE_BPB_START E) tmpBuf = take (Grub_BOOT_MACHINE_BPB_START E) bootBuf
      \<and> slice (Grub_BOOT_MACHINE_BPB_END E) s2 tmpBuf
          = slice (Grub_BOOT_MACHINE_BPB_END E) s2 bootBuf"
    and "after_ok \<equiv>
      slice (s2 + 2) (Grub_BOOT_MACHINE_WINDOWS_NT_MAGIC E) tmpBuf
          = slice (s2 + 2) (Grub_BOOT_MACHINE_WINDOWS_NT_MAGIC E) bootBuf
      \<and> drop (Grub_BOOT_MACHINE_PART_END E) tmpBuf = drop (Grub_BOOT_MACHINE_PART_END E) bootBuf
      \<and> take (length coreBuf) (drop (Grub_DISK_SECTOR_SIZE E) f) = coreBuf"
  shows
    "(before_ok \<and> slice s2 (s2 + 2) tmpBuf = [0x90, 0x90] \<longrightarrow>
        (\<exists>r. Bios_check_pass E w dev st = Inr r \<and> snd (step_state r) = Some False)
        \<and> (after_ok \<longrightarrow> Bios_check_pass E w dev st = Inr (Next (True, Some False))))
     \<and> (before_ok \<and> slice s2 (s2 + 2) tmpBuf \<noteq> [0x90, 0x90]
          \<and> slice s2 (s2 + 2) tmpBuf = slice s2 (s2 + 2) bootBuf \<longrightarrow>
        (\<exists>r. Bios_check_pass E w dev st = Inr r \<and> snd (step_state r) = Some True)
        \<and> (after_ok \<longrightarrow> Bios_check_pass E w dev st = Inr (Next (True, Some True))))
     \<and> (slice s2 (s2 + 2) tmpBuf \<noteq> [0x90, 0x90]
          \<and> slice s2 (s2 + 2) tmpBuf \<noteq> slice s2 (s2 + 2) bootBuf
          \<and> status info = BOOTABLE \<longrightarrow>
        Bios_check_and_fill_platform_install_info E platform_type info target_type w dev
          = Some (Inr (info\<lparr>status := EXIST\<rparr>)))"
proof (intro conjI impI)
  assume h: "before_ok \<and> slice s2 (s2 + 2) tmpBuf = [0x90, 0x90]"
  then have dc: "drive_check (take (Grub_DISK_SECTOR_SIZE E) f) bootBuf
      (Grub_BOOT_MACHINE_DRIVE_CHECK E) (Grub_BOOT_MACHINE_DRIVE_CHECK E + 2) = Some False"
    by (simp add: drive_check_def tmpBuf_def s2_def)
  from h show "\<exists>r. Bios_check_pass E w dev st = Inr r \<and> snd (step_state r) = Some False"
    unfolding before_ok_def tmpBuf_def s2_def
    by (intro Bios_check_pass_drive[OF bootf _ coref _ _ devf _ _ dc]) simp_all
  assume "after_ok"
  with h show "Bios_check_pass E w dev st = Inr (Next (True, Some False))"
    unfolding before_ok_def after_ok_def tmpBuf_def s2_def
    by (intro Bios_check_pass_Next[OF bootf _ coref _ _ devf _ _ dc]) simp_all
next
  assume h: "before_ok \<and> slice s2 (s2 + 2) tmpBuf \<noteq> [0x90, 0x90]
          \<and> slice s2 (s2 + 2) tmpBuf = slice s2 (s2 + 2) bootBuf"
  then have dc: "drive_check (take (Grub_DISK_SECTOR_SIZE E) f) bootBuf
      (Grub_BOOT_MACHINE_DRIVE_CHECK E) (Grub_BOOT_MACHINE_DRIVE_CHECK E + 2) = Some True"
    unfolding drive_check_def tmpBuf_def s2_def by auto
  from h show "\<exists>r. Bios_check_pass E w dev st = Inr r \<and> snd (step_state r) = Some True"
    unfolding before_ok_def tmpBuf_def s2_def
    by (intro Bios_check_pass_drive[OF bootf _ coref _ _ devf _ _ dc]) simp_all
  assume "after_ok"
  with h show "Bios_check_pass E w dev st = Inr (Next (True, Some True))"
    unfolding before_ok_def after_ok_def tmpBuf_def s2_def
    by (intro Bios_check_pass_Next[OF bootf _ coref _ _ devf _ _ dc]) simp_all
next
  assume h: "slice s2 (s2 + 2) tmpBuf \<noteq> [0x90, 0x90]
          \<and> slice s2 (s2 + 2) tmpBuf \<noteq> slice s2 (s2 + 2) bootBuf
          \<and> status info = BOOTABLE"
  then have dc: "drive_check (take (Grub_DISK_SECTOR_SIZE E) f) bootBuf
      (Grub_BOOT_MACHINE_DRIVE_CHECK E) (Grub_BOOT_MACHINE_DRIVE_CHECK E + 2) = None"
    by (simp add: drive_check_def tmpBuf_def s2_def)
  from h have st: "status info = BOOTABLE" by simp
  show "Bios_check_and_fill_platform_install_info E platform_type info target_type w dev
          = Some (Inr (info\<lparr>status := EXIST\<rparr>))"
    by (rule Bios_check_breaks[OF st Bios_check_pass_third[OF bootf coref devf dc]])
qed

lemma drive_check_classification_cases:
  "Bios_check_pass E0 (bios_world (sector_with 0xEB 0x05) (sector_with 0x90 0x90))
      (Some ''/dev/sda'') (False, None) = Inr (Next (True, Some False))
   \<and> Bios_check_pass E0 (bios_world (sector_with 0xEB 0x05) (sector_with 0xEB 0x05))
      (Some ''/dev/sda'') (False, None) = Inr (Next (True, Some True))
   \<and> Bios_check_and_fill_platform_install_info E0 I386_PC (new_info BOOTABLE) MOUNTED_HDD_DEV
      (bios_world (sector_with 0xEB 0x05) (sector_with 0 0)) (Some ''/dev/sda'')
      = Some (Inr ((new_info BOOTABLE)\<lparr>status := EXIST\<rparr>))"
  using
    drive_check_classification
      [where w = "bios_world (sector_with 0xEB 0x05) (sector_with 0x90 0x90)" and bootBuf = "sector_with 0xEB 0x05"
        and coreBuf = core0 and dev = "Some ''/dev/sda''" and f = "sector_with 0x90 0x90 @ core0" and E = E0
        and st = "(False, None)" and info = "new_info BOOTABLE" and platform_type = I386_PC
        and target_type = MOUNTED_HDD_DEV]
    drive_check_classification
      [where w = "bios_world (sector_with 0xEB 0x05) (sector_with 0xEB 0x05)" and bootBuf = "sector_with 0xEB 0x05"
        and coreBuf = core0 and dev = "Some ''/dev/sda''" and f = "sector_with 0xEB 0x05 @ core0" and E = E0
        and st = "(False, None)" and info = "new_info BOOTABLE" and platform_type = I386_PC
        and target_type = MOUNTED_HDD_DEV]
    drive_check_classification
      [where w = "bios_world (sector_with 0xEB 0x05) (sector_with 0 0)" and bootBuf = "sector_with 0xEB 0x05"
        and coreBuf = core0 and dev = "Some ''/dev/sda''" and f = "sector_with 0 0 @ core0" and E = E0
        and st = "(False, None)" and info = "new_info BOOTABLE" and platform_type = I386_PC
        and target_type = MOUNTED_HDD_DEV]
  by (simp add: Bios_getMbrGapSizeThreshold_def new_info_def)

lemma Bios_check_pass_Break_fst:
  "(case Bios_check_pass E w dev st of Inr (Break s) \<Rightarrow> fst s = fst st | _ \<Rightarrow> True)"
  by (simp add: Bios_check_pass_def Let_def split: option.splits node.splits sum.splits)

text \<open>
  C1. The claim is that BIOS verification records \<^verbatim>\<open>allow_floppy\<close>: false for a device with
  \<open>0x90 0x90\<close> at the drive check, true for a device that equals the boot image there. A pass of
  the loop sets \<^verbatim>\<open>bAllowFloppy\<close> so (\<open>drive_check_classification\<close>), but the call records nothing:
  whenever it returns a record, that record is the given one with the status \<open>EXIST\<close> and no
  \<^verbatim>\<open>allow_floppy\<close>; on the inputs where every check passes it does not return, for want of the
  \<^verbatim>\<open>break\<close> behind \<^verbatim>\<open>bOk = True\<close> (the defect of C7).
\<close>

theorem allow_floppy_never_recorded:
  assumes "Bios_check_and_fill_platform_install_info E platform_type info target_type w dev
           = Some (Inr info')"
  shows "info' = info\<lparr>status := EXIST\<rparr>"
proof -
  from assms have st: "status info = BOOTABLE"
    by (auto simp: Bios_check_and_fill_platform_install_info_def split: if_splits)
  from assms Bios_check_returns_iff[OF st, of E platform_type target_type w dev]
  have nn: "\<not> (\<exists>s. Bios_check_pass E w dev (False, None) = Inr (Next s))" by simp
  show ?thesis
  proof (cases "Bios_check_pass E w dev (False, None)")
    case (Inl e)
    with while_True_raise[of "Bios_check_pass E w dev" "(False, None)" e] assms st
    show ?thesis by (simp add: Bios_check_and_fill_platform_install_info_def)
  next
    case (Inr r)
    with nn obtain s where r: "r = Break s" by (cases r) auto
    from Bios_check_pass_Break_fst[where E = E and w = w and dev = dev and st = "(False, None)"]
      Inr r
    have "fst s = False" by simp
    with while_True_Break[of "Bios_check_pass E w dev" "(False, None)" s] Inr r assms st
    show ?thesis
      by (cases s) (simp add: Bios_check_and_fill_platform_install_info_def)
  qed
qed

theorem allow_floppy_never_recorded_witness:
  "Bios_check_and_fill_platform_install_info E0 I386_PC (new_info BOOTABLE) MOUNTED_HDD_DEV
     (bios_world (sector_with 0xEB 0x05) (sector_with 0 0)) (Some ''/dev/sda'')
     = Some (Inr ((new_info BOOTABLE)\<lparr>status := EXIST\<rparr>))
   \<and> Bios_check_and_fill_platform_install_info E0 I386_PC (new_info BOOTABLE) MOUNTED_HDD_DEV
     (bios_world (sector_with 0xEB 0x05) (sector_with 0x90 0x90)) (Some ''/dev/sda'') = None
   \<and> Bios_check_and_fill_platform_install_info E0 I386_PC (new_info BOOTABLE) MOUNTED_HDD_DEV
     (bios_world (sector_with 0xEB 0x05) (sector_with 0xEB 0x05)) (Some ''/dev/sda'') = None"
proof (intro conjI)
  have "Bios_check_pass E0 (bios_world (sector_with 0xEB 0x05) (sector_with 0 0))
      (Some ''/dev/sda'') (False, None) = Inr (Break (False, None))"
    by (rule Bios_check_pass_third[where bootBuf = "sector_with 0xEB 0x05" and coreBuf = core0
          and f = "sector_with 0 0 @ core0"])
       (simp_all add: drive_check_def)
  from Bios_check_breaks[OF _ this, of "new_info BOOTABLE" I386_PC MOUNTED_HDD_DEV]
  obtain x where x: "Bios_check_and_fill_platform_install_info E0 I386_PC (new_info BOOTABLE)
      MOUNTED_HDD_DEV (bios_world (sector_with 0xEB 0x05) (sector_with 0 0)) (Some ''/dev/sda'')
      = Some (Inr x)"
    by (simp add: new_info_def)
  from allow_floppy_never_recorded[OF x] x
  show "Bios_check_and_fill_platform_install_info E0 I386_PC (new_info BOOTABLE) MOUNTED_HDD_DEV
     (bios_world (sector_with 0xEB 0x05) (sector_with 0 0)) (Some ''/dev/sda'')
     = Some (Inr ((new_info BOOTABLE)\<lparr>status := EXIST\<rparr>))"
    by simp
next
  have p: "\<And>st. Bios_check_pass E0 (bios_world (sector_with 0xEB 0x05) (sector_with 0x90 0x90))
       (Some ''/dev/sda'') st = Inr (Next (True, Some False))"
    by (rule pass_at_sector) (simp add: drive_check_def)
  show "Bios_check_and_fill_platform_install_info E0 I386_PC (new_info BOOTABLE) MOUNTED_HDD_DEV
     (bios_world (sector_with 0xEB 0x05) (sector_with 0x90 0x90)) (Some ''/dev/sda'') = None"
    by (rule Bios_check_loops) (auto simp: new_info_def p)
next
  have p: "\<And>st. Bios_check_pass E0 (bios_world (sector_with 0xEB 0x05) (sector_with 0xEB 0x05))
       (Some ''/dev/sda'') st = Inr (Next (True, Some True))"
    by (rule pass_at_sector) (simp add: drive_check_def)
  show "Bios_check_and_fill_platform_install_info E0 I386_PC (new_info BOOTABLE) MOUNTED_HDD_DEV
     (bios_world (sector_with 0xEB 0x05) (sector_with 0xEB 0x05)) (Some ''/dev/sda'') = None"
    by (rule Bios_check_loops) (auto simp: new_info_def p)
qed

lemma E0_efi [simp]:
  "Handy_getStandardEfiFilename E0 X86_64_EFI = ''BOOTX64.EFI''"
  "PlatformType_value E0 X86_64_EFI = ''x86_64-efi''"
  "Grub_getCoreImgNameAndTarget E0 = (''core.img'', ''image'')"
  "Handy_isPlatformEfi E0 X86_64_EFI"
  "X86_64_EFI \<noteq> I386_PC"
  by (simp_all add: E0_def value0_def X86_64_EFI_def I386_EFI_def)

subsection \<open>EFI verification\<close>

lemma os_stat_sig_File:
  "lookup (boot w) p = Some (File b) \<Longrightarrow> os_stat_sig w p = Inr (S_IFREG, length b, mtime w p)"
  by (simp add: os_stat_sig_def)

text \<open>
  Without an outcome in the cache for the two paths and their signatures, EFI verification
  compares the contents: files that differ, be it in a single byte, give the status \<open>EXIST\<close>,
  and equal files keep \<open>BOOTABLE\<close> with \<^verbatim>\<open>removable\<close> true and \<^verbatim>\<open>nvram\<close> false.
\<close>

lemma efi_check_compares_bytes_uncached:
  assumes "status info = BOOTABLE"
    and "lookup (boot w) [''EFI'', ''BOOT'', Handy_getStandardEfiFilename E platform_type]
         = Some (File efi)"
    and "lookup (boot w) [''grub'', PlatformType_value E platform_type,
           fst (Grub_getCoreImgNameAndTarget E)] = Some (File core)"
    and "map_of cache
           ([''grub'', PlatformType_value E platform_type, fst (Grub_getCoreImgNameAndTarget E)],
            [''EFI'', ''BOOT'', Handy_getStandardEfiFilename E platform_type],
            (S_IFREG, length core,
             mtime w [''grub'', PlatformType_value E platform_type,
                      fst (Grub_getCoreImgNameAndTarget E)]),
            (S_IFREG, length efi,
             mtime w [''EFI'', ''BOOT'', Handy_getStandardEfiFilename E platform_type])) = None"
  shows "(core \<noteq> efi \<longrightarrow>
            fst (Efi_check_and_fill_platform_install_info E platform_type info target_type w cache)
            = Inr (info\<lparr>status := EXIST\<rparr>))
       \<and> (core = efi \<longrightarrow>
            fst (Efi_check_and_fill_platform_install_info E platform_type info target_type w cache)
            = Inr (info\<lparr>removable := Some True, nvram := Some False\<rparr>))"
  using assms
  by (auto simp: Efi_check_and_fill_platform_install_info_def Let_def os_path_exists_def
      compare_files_def os_stat_sig_File do_cmp_def read_bytes_def)

text \<open>
  C8. The claim is that EFI verification gives the status \<open>EXIST\<close> whenever the installed file
  and the core image differ. It does not when the cache of \<^verbatim>\<open>filecmp\<close> holds the outcome of an
  earlier comparison of the two paths, made when the files were equal, and the files have kept
  their sizes and modification times since: \<^verbatim>\<open>filecmp.cmp\<close> answers from the cache without
  reading the files, and the status stays \<open>BOOTABLE\<close> though the contents differ.
\<close>

theorem efi_check_stale_cache_keeps_bootable:
  assumes "status info = BOOTABLE"
    and "lookup (boot w) [''EFI'', ''BOOT'', Handy_getStandardEfiFilename E platform_type]
         = Some (File efi)"
    and "lookup (boot w) [''grub'', PlatformType_value E platform_type,
           fst (Grub_getCoreImgNameAndTarget E)] = Some (File core)"
    and "core \<noteq> efi"
    and "length core = length efi"
    and "map_of cache
           ([''grub'', PlatformType_value E platform_type, fst (Grub_getCoreImgNameAndTarget E)],
            [''EFI'', ''BOOT'', Handy_getStandardEfiFilename E platform_type],
            (S_IFREG, length core,
             mtime w [''grub'', PlatformType_value E platform_type,
                      fst (Grub_getCoreImgNameAndTarget E)]),
            (S_IFREG, length efi,
             mtime w [''EFI'', ''BOOT'', Handy_getStandardEfiFilename E platform_type])) = Some True"
  shows "Efi_check_and_fill_platform_install_info E platform_type info target_type w cache
         = (Inr (info\<lparr>removable := Some True, nvram := Some False\<rparr>), cache)
       \<and> status (info\<lparr>removable := Some True, nvram := Some False\<rparr>) = BOOTABLE"
  using assms
  by (simp add: Efi_check_and_fill_platform_install_info_def Let_def os_path_exists_def
      compare_files_def os_stat_sig_File)

lemma efi_world_lookups [simp]:
  "lookup (boot (efi_world core efi)) [''EFI'', ''BOOT'', ''BOOTX64.EFI''] = Some (File efi)"
  "lookup (boot (efi_world core efi)) [''grub'', ''x86_64-efi'', ''core.img''] = Some (File core)"
  "mtime (efi_world core efi) p = 0"
  by (simp_all add: efi_world_def)

text \<open>
  The cache is reached through the constructor: a first verification, of equal files and with
  an empty cache, leaves the outcome in the cache.
\<close>

lemma efi_check_fills_cache:
  "Efi_check_and_fill_platform_install_info E0 X86_64_EFI (new_info BOOTABLE) MOUNTED_HDD_DEV
     (efi_world [1, 2, 3] [1, 2, 3]) []
   = (Inr ((new_info BOOTABLE)\<lparr>removable := Some True, nvram := Some False\<rparr>), stale_cache)"
  by (simp add: Efi_check_and_fill_platform_install_info_def Let_def os_path_exists_def
      compare_files_def os_stat_sig_File do_cmp_def read_bytes_def new_info_def stale_cache_def)

theorem efi_check_stale_cache_keeps_bootable_witness:
  "[1, 2, 3] \<noteq> [1, 2, (4::byte)]
   \<and> snd (Efi_check_and_fill_platform_install_info E0 X86_64_EFI (new_info BOOTABLE)
            MOUNTED_HDD_DEV (efi_world [1, 2, 3] [1, 2, 3]) []) = stale_cache
   \<and> Efi_check_and_fill_platform_install_info E0 X86_64_EFI (new_info BOOTABLE) MOUNTED_HDD_DEV
       (efi_world [1, 2, 3] [1, 2, 4]) stale_cache
     = (Inr ((new_info BOOTABLE)\<lparr>removable := Some True, nvram := Some False\<rparr>), stale_cache)
   \<and> fst (Efi_check_and_fill_platform_install_info E0 X86_64_EFI (new_info BOOTABLE)
            MOUNTED_HDD_DEV (efi_world [1, 2, 3] [1, 2, 4]) [])
     = Inr ((new_info BOOTABLE)\<lparr>status := EXIST\<rparr>)"
  using
    efi_check_stale_cache_keeps_bootable [where info = "new_info BOOTABLE"
      and w = "efi_world [1, 2, 3] [1, 2, 4]" and E = E0 and platform_type = X86_64_EFI
      and efi = "[1, 2, 4]" and core = "[1, 2, 3]" and cache = stale_cache
      and target_type = MOUNTED_HDD_DEV]
    efi_check_compares_bytes_uncached [where info = "new_info BOOTABLE"
      and w = "efi_world [1, 2, 3] [1, 2, 4]" and E = E0 and platform_type = X86_64_EFI
      and efi = "[1, 2, 4]" and core = "[1, 2, 3]" and cache = "[]"
      and target_type = MOUNTED_HDD_DEV]
  by (simp add: efi_check_fills_cache) (simp add: new_info_def stale_cache_def)

subsection \<open>The file tree\<close>

lemma alter_Cons_Cons:
  "p \<noteq> [] \<Longrightarrow> alter (a # p) f (Dir es) =
     (case map_of es a of None \<Rightarrow> Dir es
      | Some c \<Rightarrow> Dir (AList.update a (alter p f c) es))"
  by (cases p) (auto split: option.splits)

lemma alter_is_Dir: "\<exists>es'. alter (x # p) f (Dir es) = Dir es'"
  by (cases p) (auto split: option.splits)

lemma lookup_alter_diverge:
  "x \<noteq> y \<Longrightarrow> lookup (alter (r @ x # p) f n) (r @ y # q) = lookup n (r @ y # q)"
proof (induction r arbitrary: n)
  case Nil
  show ?case
  proof (cases n)
    case (File b) then show ?thesis by simp
  next
    case (Dir es)
    with Nil show ?thesis
      by (cases p) (auto simp: update_conv' delete_conv' split: option.splits)
  qed
next
  case (Cons a r)
  show ?case
  proof (cases n)
    case (File b) then show ?thesis by simp
  next
    case (Dir es)
    then show ?thesis
      using Cons.IH[OF Cons.prems]
      by (auto simp: alter_Cons_Cons update_conv' split: option.splits)
  qed
qed

lemma lookup_alter_same:
  "p \<noteq> [] \<Longrightarrow> lookup n (butlast p) = Some (Dir es) \<Longrightarrow>
   lookup (alter p f n) p = f (lookup n p)"
proof (induction p arbitrary: n)
  case Nil then show ?case by simp
next
  case (Cons a p)
  show ?case
  proof (cases p)
    case Nil
    with Cons.prems show ?thesis
      by (auto simp: update_conv' delete_conv' split: option.splits)
  next
    case (Cons b p')
    with Cons.prems obtain ns where n: "n = Dir ns" by (cases n) auto
    show ?thesis
    proof (cases "map_of ns a")
      case None
      with Cons.prems n Cons show ?thesis by simp
    next
      case (Some c)
      with Cons.prems n Cons have "lookup c (butlast p) = Some (Dir es)" by simp
      from Cons.IH[OF _ this] Cons Some n show ?thesis
        by (simp add: update_conv')
    qed
  qed
qed

lemma lookup_alter_below:
  "lookup n q = Some (Dir es) \<Longrightarrow> \<exists>es'. lookup (alter (q @ x # p) f n) q = Some (Dir es')"
proof (induction q arbitrary: n)
  case Nil
  then show ?case using alter_is_Dir[of x p f es] by simp
next
  case (Cons a q)
  then obtain ns c where n: "n = Dir ns" "map_of ns a = Some c" "lookup c q = Some (Dir es)"
    by (cases n) (auto split: option.splits)
  from Cons.IH[OF n(3)] n(1,2) show ?case
    by (simp add: alter_Cons_Cons update_conv')
qed

subsection \<open>BIOS installation\<close>

lemma Bios_isValidDisk_never_True: "Bios_isValidDisk E dev \<noteq> Inr True"
  by (auto simp: Bios_isValidDisk_def split: sum.splits list.splits)

lemma Bios_install_platform_fails:
  "\<exists>e. Bios_install_platform E pt info source w dev bInstallMbr bF bA bR = (Inl e, w)"
proof (cases "Bios_isValidDisk E dev")
  case (Inl e)
  then show ?thesis by (simp add: Bios_install_platform_def)
next
  case (Inr v)
  with Bios_isValidDisk_never_True[of E dev] have "\<not> v" by auto
  with Inr show ?thesis by (simp add: Bios_install_platform_def)
qed

text \<open>
  C2. For a device path that names a partition (it ends in a digit, which is what the regular
  expression of \<^verbatim>\<open>_isValidDisk\<close> tests), or whose partition table is not msdos, or that has primary
  partitions, or whose first partition starts below 512 KiB: \<^verbatim>\<open>_isValidDisk\<close> does not return
  true, and BIOS \<^verbatim>\<open>install_platform\<close> with \<^verbatim>\<open>bInstallMbr\<close> raises and leaves the device and the
  boot directory as they were. (\<open>Bios_isValidDisk_never_True\<close>: no device passes the test.)
\<close>

theorem bios_install_rejects_invalid_device:
  assumes "re_fullmatch_dev dev
     \<or> (\<exists>d. parted_newDisk E dev = Inr d
            \<and> (pd_type d \<noteq> ''msdos''
               \<or> pd_primaryStarts d \<noteq> []
               \<or> (case pd_primaryStarts d of
                     [] \<Rightarrow> False
                   | start # rest \<Rightarrow> start * pd_sectorSize d < 512 * 1024)))"
  shows "Bios_isValidDisk E dev \<noteq> Inr True
       \<and> (\<exists>e. Bios_install_platform E platform_type info source w dev True bFloppyOrHdd
                 bAllowFloppy bAddRsCodes = (Inl e, w))"
  using Bios_isValidDisk_never_True[of E dev]
    Bios_install_platform_fails[of E platform_type info source w dev True]
  by blast

theorem bios_install_rejects_invalid_device_witness:
  "re_fullmatch_dev ''/dev/sda1''
   \<and> Bios_isValidDisk E0 ''/dev/sda1'' \<noteq> Inr True
   \<and> (\<exists>e. Bios_install_platform E0 I386_PC (new_info BOOTABLE) source0 empty_world
        ''/dev/sda1'' True False False False = (Inl e, empty_world))"
  using bios_install_rejects_invalid_device
    [of "''/dev/sda1''" E0 I386_PC "new_info BOOTABLE" source0 empty_world False False False]
  by (simp add: re_fullmatch_dev_def is_digit_def)

lemma shutil_copy_Inr:
  assumes "shutil_copy (Some b) name dst n = Inr n1"
  shows "(os_path_isdir n dst \<and> n1 = alter (dst @ [name]) (\<lambda>_. Some (File b)) n)
       \<or> (\<not> os_path_isdir n dst \<and> n1 = alter dst (\<lambda>_. Some (File b)) n
           \<and> (\<exists>es. lookup n (butlast dst) = Some (Dir es)))"
  using assms
  by (auto simp: shutil_copy_def write_file_def split: if_splits option.splits node.splits)

lemma Bios_install_mbr_boot_dir:
  "lookup (boot w) [''grub'', ''boot.img''] = Some (Dir es)
   \<Longrightarrow> \<exists>e. Bios_install_mbr E w dev bF bA bR = Inl e"
  by (simp add: Bios_install_mbr_def read_bytes_def)

lemma Bios_install_mbr_boot_size:
  "lookup (boot w) [''grub'', ''boot.img''] = Some (File b) \<Longrightarrow> length b \<noteq> Grub_DISK_SECTOR_SIZE E
   \<Longrightarrow> \<exists>e. Bios_install_mbr E w dev bF bA bR = Inl e"
  by (simp add: Bios_install_mbr_def read_bytes_def)

lemma Bios_install_mbr_core_size:
  "lookup (boot w) [''grub'', ''core.img''] = Some (File c)
   \<Longrightarrow> length c < Grub_DISK_SECTOR_SIZE E \<or> length c > Bios_getMbrGapSizeThreshold
   \<Longrightarrow> \<exists>e. Bios_install_mbr E w dev bF bA bR = Inl e"
  by (auto simp: Bios_install_mbr_def read_bytes_def split: sum.splits option.splits node.splits)

lemma Bios_install_body_error_devs:
  "Bios_install_body E pt info source w dev bInstallMbr bF bA bR = (Inl e, w') \<Longrightarrow> devs w' = devs w"
  by (auto simp: Bios_install_body_def split: sum.splits if_splits)

lemma Bios_install_body_bad_sizes:
  assumes "(\<exists>b. platform_file source pt ''boot.img'' = Some b
               \<and> length b \<noteq> Grub_DISK_SECTOR_SIZE E)
         \<or> (\<exists>c. lookup (boot w) [''grub'', ''core.img''] = Some (File c)
               \<and> (length c < Grub_DISK_SECTOR_SIZE E \<or> length c > Bios_getMbrGapSizeThreshold))"
  shows "\<exists>e w'. Bios_install_body E pt info source w dev True bF bA bR = (Inl e, w')"
proof (cases "shutil_copy (platform_file source pt ''boot.img'') ''boot.img''
               [''grub'', ''boot.img''] (boot w)")
  case (Inl e)
  then show ?thesis by (simp add: Bios_install_body_def)
next
  case (Inr n1)
  then obtain b where b: "platform_file source pt ''boot.img'' = Some b"
    by (cases "platform_file source pt ''boot.img''") (auto simp: shutil_copy_def)
  note cp = shutil_copy_Inr[OF Inr[unfolded b]]
  have "\<exists>e. Bios_install_mbr E (w\<lparr>boot := n1\<rparr>) dev bF bA bR = Inl e"
    using assms
  proof
    assume "\<exists>b. platform_file source pt ''boot.img'' = Some b
               \<and> length b \<noteq> Grub_DISK_SECTOR_SIZE E"
    with b have len: "length b \<noteq> Grub_DISK_SECTOR_SIZE E" by auto
    from cp show ?thesis
    proof (elim disjE conjE exE)
      assume d: "os_path_isdir (boot w) [''grub'', ''boot.img'']"
        and n1: "n1 = alter ([''grub'', ''boot.img''] @ [''boot.img'']) (\<lambda>_. Some (File b)) (boot w)"
      from d obtain es where "lookup (boot w) [''grub'', ''boot.img''] = Some (Dir es)"
        by (auto simp: os_path_isdir_def split: option.splits node.splits)
      from lookup_alter_below[OF this, of "''boot.img''" "[]" "\<lambda>_. Some (File b)"] n1
      obtain es' where "lookup n1 [''grub'', ''boot.img''] = Some (Dir es')" by auto
      then show ?thesis by (intro Bios_install_mbr_boot_dir[of _ es']) simp
    next
      fix es assume n1: "n1 = alter [''grub'', ''boot.img''] (\<lambda>_. Some (File b)) (boot w)"
        and par: "lookup (boot w) (butlast [''grub'', ''boot.img'']) = Some (Dir es)"
      from lookup_alter_same[OF _ par, of "\<lambda>_. Some (File b)"] n1
      have "lookup n1 [''grub'', ''boot.img''] = Some (File b)" by simp
      with len show ?thesis by (intro Bios_install_mbr_boot_size[of _ b]) simp_all
    qed
  next
    assume "\<exists>c. lookup (boot w) [''grub'', ''core.img''] = Some (File c)
               \<and> (length c < Grub_DISK_SECTOR_SIZE E \<or> length c > Bios_getMbrGapSizeThreshold)"
    then obtain c where c: "lookup (boot w) [''grub'', ''core.img''] = Some (File c)"
      and len: "length c < Grub_DISK_SECTOR_SIZE E \<or> length c > Bios_getMbrGapSizeThreshold"
      by blast
    have neq: "''boot.img'' \<noteq> ''core.img''" by simp
    have "lookup n1 [''grub'', ''core.img''] = lookup (boot w) [''grub'', ''core.img'']"
      using cp
        lookup_alter_diverge[OF neq, of "[''grub'']" "[''boot.img'']" "\<lambda>_. Some (File b)" "boot w" "[]"]
        lookup_alter_diverge[OF neq, of "[''grub'']" "[]" "\<lambda>_. Some (File b)" "boot w" "[]"]
      by auto
    with c len show ?thesis by (intro Bios_install_mbr_core_size[of _ c]) simp_all
  qed
  with Inr show ?thesis by (auto simp: Bios_install_body_def)
qed

text \<open>
  C3. When the boot image of the payload is not exactly one sector long, or the core image in the
  boot directory is shorter than a sector or longer than 512 KiB: BIOS \<^verbatim>\<open>install_platform\<close> with
  \<^verbatim>\<open>bInstallMbr\<close> raises with the device unchanged; and so does the part of it behind its two
  assertions, where the sizes are tested before the device is opened for writing.
\<close>

theorem bios_install_rejects_bad_sizes:
  assumes "(\<exists>b. platform_file source platform_type ''boot.img'' = Some b
               \<and> length b \<noteq> Grub_DISK_SECTOR_SIZE E)
         \<or> (\<exists>c. lookup (boot w) [''grub'', ''core.img''] = Some (File c)
               \<and> (length c < Grub_DISK_SECTOR_SIZE E \<or> length c > 512 * 1024))"
  shows "(\<exists>e w'. Bios_install_body E platform_type info source w dev True bFloppyOrHdd
                    bAllowFloppy bAddRsCodes = (Inl e, w') \<and> devs w' = devs w)
       \<and> (\<exists>e. Bios_install_platform E platform_type info source w dev True bFloppyOrHdd
                 bAllowFloppy bAddRsCodes = (Inl e, w))"
proof
  from assms obtain e w' where
    r: "Bios_install_body E platform_type info source w dev True bFloppyOrHdd bAllowFloppy
          bAddRsCodes = (Inl e, w')"
    using Bios_install_body_bad_sizes[of source platform_type E w info dev bFloppyOrHdd
        bAllowFloppy bAddRsCodes]
    by (auto simp: Bios_getMbrGapSizeThreshold_def)
  from Bios_install_body_error_devs[OF r] r
  show "\<exists>e w'. Bios_install_body E platform_type info source w dev True bFloppyOrHdd
                    bAllowFloppy bAddRsCodes = (Inl e, w') \<and> devs w' = devs w"
    by blast
  show "\<exists>e. Bios_install_platform E platform_type info source w dev True bFloppyOrHdd
                 bAllowFloppy bAddRsCodes = (Inl e, w)"
    by (rule Bios_install_platform_fails)
qed

theorem bios_install_rejects_bad_sizes_witness:
  "platform_file source_short I386_PC ''boot.img'' = Some (replicate 100 0)
   \<and> length (replicate 100 (0::byte)) \<noteq> Grub_DISK_SECTOR_SIZE E0
   \<and> fst (Bios_install_body E0 I386_PC (new_info BOOTABLE) source_short (core_world core0)
        ''/dev/sda'' True False False False)
      = Inl (Exception ''the size of boot.img is not DISK_SECTOR_SIZE'')
   \<and> (\<exists>e w'. Bios_install_body E0 I386_PC (new_info BOOTABLE) source_short (core_world core0)
        ''/dev/sda'' True False False False = (Inl e, w')
        \<and> devs w' = devs (core_world core0))
   \<and> (\<exists>e. Bios_install_platform E0 I386_PC (new_info BOOTABLE) source_short (core_world core0)
        ''/dev/sda'' True False False False = (Inl e, core_world core0))"
proof -
  have h: "platform_file source_short I386_PC ''boot.img'' = Some (replicate 100 0)
      \<and> length (replicate 100 (0::byte)) \<noteq> Grub_DISK_SECTOR_SIZE E0"
    by (simp add: source_short_def)
  have ev: "fst (Bios_install_body E0 I386_PC (new_info BOOTABLE) source_short (core_world core0)
        ''/dev/sda'' True False False False)
      = Inl (Exception ''the size of boot.img is not DISK_SECTOR_SIZE'')"
    by (simp add: Bios_install_body_def shutil_copy_def write_file_def os_path_isdir_def
        source_short_def core_world_def Bios_install_mbr_def read_bytes_def)
  from h ev
    bios_install_rejects_bad_sizes [where source = source_short and platform_type = I386_PC
      and E = E0 and w = "core_world core0" and info = "new_info BOOTABLE"
      and dev = "''/dev/sda''" and bFloppyOrHdd = False and bAllowFloppy = False
      and bAddRsCodes = False]
  show ?thesis by blast
qed

lemma install_dispatch_bios_fails:
  "\<exists>e w'. install_dispatch E t I386_PC source kwargs bInstallMbr w = (Inl e, w')
     \<and> devs w' = devs w"
proof (cases "Common_install_platform E t I386_PC source (boot w)")
  case (Pair r n1)
  show ?thesis
  proof (cases r)
    case (Inl e)
    with Pair show ?thesis by (simp add: install_dispatch_def)
  next
    case (Inr ml)
    show ?thesis
    proof (cases "t_dev t")
      case None
      with Pair Inr show ?thesis by (simp add: install_dispatch_def)
    next
      case (Some dev)
      from Bios_install_platform_fails[of E I386_PC "new_info BOOTABLE" source
          "w\<lparr>boot := n1\<rparr>" dev bInstallMbr False
          "kwargs_get kwargs ''allow_floppy'' False" "kwargs_get kwargs ''rs_codes'' True"]
      show ?thesis using Pair Inr Some by (auto simp: install_dispatch_def)
    qed
  qed
qed

text \<open>
  C10. On a mounted-device target in a write-capable mode, \<^verbatim>\<open>install_platform\<close> for the BIOS
  platform raises unless \<^verbatim>\<open>rs_codes=False\<close> is passed, with the platform map and the device
  unchanged; and the flags it passes on, \<^verbatim>\<open>rs_codes\<close> being true by default, do not satisfy the
  assertion of the BIOS installer.
\<close>

theorem default_bios_install_raises:
  assumes "t_targetType t = MOUNTED_HDD_DEV"
    and "write_capable t"
    and "map_of kwargs ''rs_codes'' \<noteq> Some False"
  shows "(\<exists>e w'. Target_install_platform E t I386_PC source kwargs w = (Inl e, t, w')
            \<and> devs w' = devs w)
       \<and> \<not> Bios_install_flags_ok False (kwargs_get kwargs ''allow_floppy'' False)
             (kwargs_get kwargs ''rs_codes'' True)"
proof
  from install_dispatch_bios_fails[of E t source kwargs True w] obtain e w' where
    d: "install_dispatch E t I386_PC source kwargs True w = (Inl e, w')" "devs w' = devs w"
    by blast
  then show "\<exists>e w'. Target_install_platform E t I386_PC source kwargs w = (Inl e, t, w')
            \<and> devs w' = devs w"
    using assms(1,2)
    by (auto simp: Target_install_platform_def Target_get_platform_install_info_def
        split: option.splits)
  show "\<not> Bios_install_flags_ok False (kwargs_get kwargs ''allow_floppy'' False)
             (kwargs_get kwargs ''rs_codes'' True)"
    using assms(3)
    by (cases "map_of kwargs ''rs_codes''") (auto simp: Bios_install_flags_ok_def kwargs_get_def)
qed

theorem default_bios_install_raises_witness:
  "t_targetType (hdd_target RW) = MOUNTED_HDD_DEV
   \<and> write_capable (hdd_target RW)
   \<and> map_of [(''allow_floppy'', False)] ''rs_codes'' \<noteq> Some False
   \<and> (\<exists>e w'. Target_install_platform E0 (hdd_target RW) I386_PC source0
         [(''allow_floppy'', False)] empty_world = (Inl e, hdd_target RW, w')
         \<and> devs w' = devs empty_world)"
  using default_bios_install_raises
    [of "hdd_target RW" "[(''allow_floppy'', False)]" E0 source0 empty_world]
  by (simp add: hdd_target_def write_capable_def)

subsection \<open>The module list\<close>

lemma add_disk_modules_Nil:
  "add_disk_modules (disk_module_of E pt) [] = Inr ml \<Longrightarrow>
   (pt = I386_PC \<longrightarrow> ml = [''biosdisk''])
   \<and> (pt \<noteq> I386_PC \<and> (pt = I386_MULTIBOOT \<or> Handy_isPlatformCoreboot E pt
          \<or> Handy_isPlatformQemu E pt \<or> pt = MIPSEL_LOONGSON)
        \<longrightarrow> ml = [''pata'', ''ahci'', ''ohci'', ''uhci'', ''ehci'', ''ubms''])
   \<and> (pt \<noteq> I386_PC \<and> \<not> (pt = I386_MULTIBOOT \<or> Handy_isPlatformCoreboot E pt
          \<or> Handy_isPlatformQemu E pt \<or> pt = MIPSEL_LOONGSON)
        \<longrightarrow> ml = [])"
  by (auto simp: add_disk_modules_def disk_module_of_def split: if_splits)

lemma Common_install_platform_Inr:
  assumes "Common_install_platform E p pt source n = (Inr ml, n')"
  shows "\<exists>mnt ml1 fsName. Grub_probeMnt E (t_bootDir p) = Inr mnt
      \<and> add_disk_modules (disk_module_of E pt) [] = Inr ml1
      \<and> Grub_getGrubFsName E (mnt_fs mnt) = Inr fsName
      \<and> ml = ml1 @ [fsName, ''search_fs_uuid'']"
  using assms
  by (auto simp: Common_install_platform_def Let_def
      split: sum.splits option.splits if_splits prod.splits)

text \<open>
  C6. Whenever \<^verbatim>\<open>_Common.install_platform\<close> completes, the module list it has built and handed to
  \<^verbatim>\<open>Grub.makeCoreImage\<close> is, for the BIOS platform, \<^verbatim>\<open>biosdisk\<close>, the filesystem module and
  \<^verbatim>\<open>search_fs_uuid\<close>; for a platform with native disk access (multiboot, coreboot, qemu,
  loongson) it is \<^verbatim>\<open>pata, ahci, ohci, uhci, ehci, ubms\<close>, then the filesystem module, then
  \<^verbatim>\<open>search_fs_uuid\<close>; and for every platform it ends in \<^verbatim>\<open>search_fs_uuid\<close>.
\<close>

theorem module_list_order:
  assumes "Common_install_platform E p platform_type source n = (Inr moduleList, n')"
  shows "\<exists>mnt fsName.
       Grub_probeMnt E (t_bootDir p) = Inr mnt
     \<and> Grub_getGrubFsName E (mnt_fs mnt) = Inr fsName
     \<and> (platform_type = I386_PC \<longrightarrow> moduleList = [''biosdisk'', fsName, ''search_fs_uuid''])
     \<and> (platform_type \<noteq> I386_PC
          \<and> (platform_type = I386_MULTIBOOT \<or> Handy_isPlatformCoreboot E platform_type
              \<or> Handy_isPlatformQemu E platform_type \<or> platform_type = MIPSEL_LOONGSON)
        \<longrightarrow> moduleList = [''pata'', ''ahci'', ''ohci'', ''uhci'', ''ehci'', ''ubms'', fsName,
                           ''search_fs_uuid''])
     \<and> last moduleList = ''search_fs_uuid''"
proof -
  from Common_install_platform_Inr[OF assms] obtain mnt ml1 fsName where
    h: "Grub_probeMnt E (t_bootDir p) = Inr mnt"
       "add_disk_modules (disk_module_of E platform_type) [] = Inr ml1"
       "Grub_getGrubFsName E (mnt_fs mnt) = Inr fsName"
       "moduleList = ml1 @ [fsName, ''search_fs_uuid'']"
    by blast
  from add_disk_modules_Nil[OF h(2)] h(1,3,4) show ?thesis by auto
qed

lemma E0_multiboot [simp]:
  "\<not> Handy_isPlatformEfi E0 I386_MULTIBOOT" "\<not> Handy_isPlatformEfi E0 I386_PC"
  "PlatformType_value E0 I386_PC = ''i386-pc''"
  "PlatformType_value E0 I386_MULTIBOOT = ''i386-multiboot''"
  by (simp_all add: E0_def value0_def X86_64_EFI_def I386_EFI_def)

lemma Common_install_E0_bios:
  "\<exists>ml n'. Common_install_platform E0 (hdd_target RW) I386_PC source0 (Dir []) = (Inr ml, n')"
  by (simp add: Common_install_platform_def Let_def E0_def hdd_target_def value0_def
      add_disk_modules_def disk_module_of_def force_mkdir_def os_mkdir_def write_file_def
      X86_64_EFI_def I386_EFI_def)

lemma Common_install_E0_multiboot:
  "\<exists>ml n'. Common_install_platform E0 (hdd_target RW) I386_MULTIBOOT source0 (Dir [])
     = (Inr ml, n')"
  by (simp add: Common_install_platform_def Let_def E0_def hdd_target_def value0_def
      add_disk_modules_def disk_module_of_def force_mkdir_def os_mkdir_def write_file_def
      X86_64_EFI_def I386_EFI_def)

theorem module_list_order_witness:
  "fst (Common_install_platform E0 (hdd_target RW) I386_PC source0 (Dir []))
     = Inr [''biosdisk'', ''fat'', ''search_fs_uuid'']
   \<and> fst (Common_install_platform E0 (hdd_target RW) I386_MULTIBOOT source0 (Dir []))
     = Inr [''pata'', ''ahci'', ''ohci'', ''uhci'', ''ehci'', ''ubms'', ''fat'', ''search_fs_uuid'']"
proof -
  from Common_install_E0_bios obtain ml n' where
    a: "Common_install_platform E0 (hdd_target RW) I386_PC source0 (Dir []) = (Inr ml, n')"
    by blast
  from Common_install_E0_multiboot obtain ml2 n2 where
    b: "Common_install_platform E0 (hdd_target RW) I386_MULTIBOOT source0 (Dir []) = (Inr ml2, n2)"
    by blast
  have fs: "Grub_probeMnt E0 bd = Inr \<lparr>mnt_fs = ''vfat'', mnt_fs_uuid = Some ''ABCD-1234'',
      mnt_mnt_pt = ''/mnt''\<rparr>" "Grub_getGrubFsName E0 ''vfat'' = Inr ''fat''" for bd
    by (simp_all add: E0_def)
  from module_list_order[OF a] module_list_order[OF b] a b show ?thesis
    by (auto simp: fs)
qed

subsection \<open>Removal\<close>

lemma lookup_append_None: "lookup n p = None \<Longrightarrow> lookup n (p @ q) = None"
proof (induction p arbitrary: n)
  case Nil then show ?case by simp
next
  case (Cons a p)
  then show ?case by (cases n) (auto split: option.splits)
qed

lemma world_boot_same [simp]: "w\<lparr>boot := boot w\<rparr> = w"
  by simp

lemma Efi_remove_platform_absent:
  assumes "lookup n [''EFI'', ''BOOT''] = None"
  shows "Efi_remove_platform E pt n = (Inl FileNotFoundError, n)"
proof -
  from lookup_append_None[OF assms, of "[Handy_getStandardEfiFilename E pt]"]
  have "force_rm [''EFI'', ''BOOT'', Handy_getStandardEfiFilename E pt] n = n"
    by (simp add: force_rm_def)
  with assms show ?thesis
    by (simp add: Efi_remove_platform_def Let_def rmdir_if_empty_def os_listdir_def)
qed

text \<open>
  C5. The claim is that \<^verbatim>\<open>remove_platform\<close> of a platform with no entry and no files does nothing
  and raises nothing. For an EFI platform on a mounted-device target it raises: with no
  \<^verbatim>\<open>EFI\<close> directory, \<^verbatim>\<open>force_rm\<close> skips the missing file, and \<^verbatim>\<open>rmdir_if_empty\<close> then lists the
  missing directory \<^verbatim>\<open>EFI/BOOT\<close>, which is a \<^verbatim>\<open>FileNotFoundError\<close>.
\<close>

theorem remove_platform_efi_absent_raises:
  assumes "t_targetType t = MOUNTED_HDD_DEV"
    and "write_capable t"
    and "platform_type \<noteq> I386_PC"
    and "Handy_isPlatformEfi E platform_type"
    and "map_of (t_platforms t) platform_type = None"
    and "lookup (boot w) [''EFI''] = None"
    and "lookup (boot w) [''grub''] = None"
  shows "Target_remove_platform E t platform_type w = (Inl FileNotFoundError, t, w)"
proof -
  from lookup_append_None[OF assms(6), of "[''BOOT'']"]
  have "lookup (boot w) [''EFI'', ''BOOT''] = None" by simp
  from Efi_remove_platform_absent[OF this] assms(1-4) show ?thesis
    by (simp add: Target_remove_platform_def)
qed

theorem remove_platform_efi_absent_raises_witness:
  "t_targetType (hdd_target RW) = MOUNTED_HDD_DEV
   \<and> write_capable (hdd_target RW)
   \<and> Handy_isPlatformEfi E0 X86_64_EFI
   \<and> map_of (t_platforms (hdd_target RW)) X86_64_EFI = None
   \<and> boot empty_world = Dir []
   \<and> Target_remove_platform E0 (hdd_target RW) X86_64_EFI empty_world
      = (Inl FileNotFoundError, hdd_target RW, empty_world)"
  using remove_platform_efi_absent_raises [of "hdd_target RW" X86_64_EFI E0 empty_world]
  by (simp add: hdd_target_def write_capable_def empty_world_def)

text \<open>
  The other paths of \<^verbatim>\<open>remove_platform\<close>: the BIOS platform, and every platform of a
  staging-directory target, are removed without error when absent; a platform that is neither
  BIOS nor EFI meets the \<^verbatim>\<open>assert False\<close> of the dispatch.
\<close>

lemma remove_platform_bios_absent_noop:
  assumes "t_targetType t = MOUNTED_HDD_DEV"
    and "write_capable t"
    and "map_of (t_platforms t) I386_PC = None"
    and "lookup (boot w) [''grub'', PlatformType_value E I386_PC] = None"
  shows "Target_remove_platform E t I386_PC w = (Inr (), t, w)"
  using assms
  by (simp add: Target_remove_platform_def Bios_remove_platform_def Common_remove_platform_def
      force_rm_def)

lemma remove_platform_iso_absent_noop:
  assumes "t_targetType t = ISO_DIR"
    and "write_capable t"
    and "map_of (t_platforms t) platform_type = None"
    and "lookup (boot w) [''grub'', PlatformType_value E platform_type] = None"
  shows "Target_remove_platform E t platform_type w = (Inr (), t, w)"
  using assms
  by (simp add: Target_remove_platform_def Common_remove_platform_def force_rm_def)

lemma remove_platform_unsupported_raises:
  assumes "t_targetType t = MOUNTED_HDD_DEV"
    and "write_capable t"
    and "platform_type \<noteq> I386_PC"
    and "\<not> Handy_isPlatformEfi E platform_type"
  shows "Target_remove_platform E t platform_type w = (Inl AssertionError, t, w)"
  using assms by (simp add: Target_remove_platform_def)

subsection \<open>The keys of the platform map\<close>

lemma inner_fold_keys:
  "fst ` set (fold (\<lambda>pt ps'. if fn = val pt then AList.update pt v ps' else ps') ms ps)
   = fst ` set ps \<union> {pt \<in> set ms. val pt = fn}"
  by (induction ms arbitrary: ps) (auto simp: dom_update)

lemma outer_fold_keys:
  "fst ` set (fold (\<lambda>fn ps.
       fold (\<lambda>pt ps'. if fn = val pt then AList.update pt v ps' else ps') ms ps) names ps)
   = fst ` set ps \<union> {pt \<in> set ms. val pt \<in> set names}"
proof (induction names arbitrary: ps)
  case Nil then show ?case by simp
next
  case (Cons fn names)
  show ?case
    by (simp add: Cons.IH inner_fold_keys) blast
qed

lemma listdir_exists:
  assumes "os_listdir n [g] = Inr names"
  shows "v \<in> set names \<longleftrightarrow> os_path_exists n [g, v]"
proof -
  from assms obtain es where es: "lookup n [g] = Some (Dir es)" "names = map fst es"
    by (auto simp: os_listdir_def split: option.splits node.splits)
  from es(1) obtain ns where n: "n = Dir ns" "map_of ns g = Some (Dir es)"
    by (cases n) (auto split: option.splits)
  have "os_path_exists n [g, v] \<longleftrightarrow> map_of es v \<noteq> None"
    by (auto simp: os_path_exists_def n split: option.splits)
  also have "\<dots> \<longleftrightarrow> v \<in> fst ` set es" by (simp add: map_of_eq_None_iff)
  finally show ?thesis using es(2) by simp
qed

lemma isdir_exists: "os_path_isdir n p \<Longrightarrow> os_path_exists n p"
  by (auto simp: os_path_isdir_def os_path_exists_def split: option.splits)

lemma isdir_parent: "os_path_isdir n [g, v] \<Longrightarrow> os_path_isdir n [g]"
  by (cases n) (auto simp: os_path_isdir_def split: option.splits node.splits)

lemma Common_init_platforms_keys:
  assumes "Common_init_platforms E n [] = Inr ps"
    and "\<forall>pt \<in> set (PlatformType_members E).
           os_path_exists n [''grub'', PlatformType_value E pt]
           \<longrightarrow> os_path_isdir n [''grub'', PlatformType_value E pt]"
  shows "fst ` set ps = {pt \<in> set (PlatformType_members E).
           os_path_isdir n [''grub'', PlatformType_value E pt]}"
proof (cases "os_path_isdir n [''grub'']")
  case False
  with assms(1) have "ps = []" by (simp add: Common_init_platforms_def)
  with False isdir_parent show ?thesis by auto
next
  case True
  with assms(1) obtain names where names: "os_listdir n [''grub''] = Inr names"
    and ps: "ps = fold (\<lambda>fn ps.
                       fold (\<lambda>pt ps'. if fn = PlatformType_value E pt
                                       then AList.update pt (new_info BOOTABLE) ps' else ps')
                         (PlatformType_members E) ps) names []"
    by (auto simp: Common_init_platforms_def split: sum.splits)
  have "fst ` set ps = {pt \<in> set (PlatformType_members E). PlatformType_value E pt \<in> set names}"
    unfolding ps by (simp add: outer_fold_keys)
  also have "\<dots> = {pt \<in> set (PlatformType_members E).
           os_path_isdir n [''grub'', PlatformType_value E pt]}"
    using assms(2) listdir_exists[OF names] isdir_exists by blast
  finally show ?thesis .
qed

lemma check_platforms_keys:
  "check_platforms E tt w dev c kvs = Some (Inr kvs', c') \<Longrightarrow> map fst kvs' = map fst kvs"
proof (induction kvs arbitrary: kvs' c c')
  case Nil then show ?case by simp
next
  case (Cons kv kvs)
  obtain k v where kv: "kv = (k, v)" by (cases kv)
  from Cons.prems obtain r c1 c2 where r: "check_platforms E tt w dev c1 kvs = Some (Inr r, c2)"
    and "map fst kvs' = k # map fst r"
    unfolding kv by (auto split: option.splits sum.splits if_splits prod.splits)
  with Cons.IH[OF r] kv show ?case by simp
qed

lemma Target_init_attrs_fields:
  "Target_init_attrs tt m kwargs = Inr t \<Longrightarrow> t_mode t = m \<and> t_platforms t = []"
  by (auto simp: Target_init_attrs_def split: TargetType.splits option.splits if_splits)

lemma Target_init_keys:
  assumes "Target_init E tt m kwargs w c = Some (Inr t, c')"
    and "platform_entries_are_dirs E w"
  shows "keys t = scan_found E m w"
proof -
  from assms(1) obtain t0 where t0: "Target_init_attrs tt m kwargs = Inr t0"
    by (auto simp: Target_init_def split: sum.splits)
  note f = Target_init_attrs_fields[OF t0]
  show ?thesis
  proof (cases "m = R \<or> m = RW")
    case False
    with assms(1) t0 f show ?thesis by (auto simp: Target_init_def scan_found_def)
  next
    case True
    with assms(1) t0 f obtain ps ps' dev where
      ps: "Common_init_platforms E (boot w) [] = Inr ps"
      and c: "check_platforms E tt w dev c ps = Some (Inr ps', c')"
      and t: "t = t0\<lparr>t_platforms := ps'\<rparr>"
      by (auto simp: Target_init_def
          split: TargetType.splits sum.splits option.splits prod.splits)
    from check_platforms_keys[OF c] have "fst ` set ps' = fst ` set ps"
      by (metis set_map)
    with Common_init_platforms_keys[OF ps] assms(2) t True show ?thesis
      by (simp add: platform_entries_are_dirs_def scan_found_def)
  qed
qed

lemma replay_append: "replay (a @ b) S = replay b (replay a S)"
  by (induction a S rule: replay.induct) simp_all

lemma Target_install_platform_keys:
  "keys (fst (snd (Target_install_platform E t pt source kwargs w)))
   = replay (op_events E (Install_platform pt source kwargs) t w) (keys t)"
  by (auto simp: Target_install_platform_def dom_update
      split: sum.splits prod.splits TargetType.splits)

lemma Target_remove_platform_keys:
  "keys (fst (snd (Target_remove_platform E t pt w)))
   = replay (op_events E (Remove_platform pt) t w) (keys t)"
proof -
  have "set (map fst (AList.delete pt (t_platforms t))) = set (map fst (t_platforms t)) - {pt}"
    unfolding delete_keys by simp
  then have "fst ` set (AList.delete pt (t_platforms t)) = keys t - {pt}"
    by simp
  moreover have "map_of (t_platforms t) pt = None \<Longrightarrow> keys t - {pt} = keys t"
    by (auto simp: map_of_eq_None_iff)
  ultimately show ?thesis
    by (auto simp: Target_remove_platform_def split: sum.splits prod.splits)
qed

lemma remove_platforms_keys:
  "keys (fst (snd (remove_platforms E ks t w))) = replay (loop_events E ks t w) (keys t)"
proof (induction ks arbitrary: t w)
  case Nil then show ?case by simp
next
  case (Cons k ks)
  obtain r t1 w1 where s: "Target_remove_platform E t k w = (r, t1, w1)"
    by (cases "Target_remove_platform E t k w") auto
  from Target_remove_platform_keys[of E t k w] s
  have k1: "keys t1 = replay (case r of Inl e \<Rightarrow> [] | Inr u \<Rightarrow> [Removed k]) (keys t)"
    by simp
  show ?case
  proof (cases r)
    case (Inl e)
    with s k1 show ?thesis by simp
  next
    case (Inr u)
    with s k1 Cons.IH[of t1 w1] show ?thesis by simp
  qed
qed

lemma apply_op_keys:
  "keys (fst (snd (apply_op E x t w))) = replay (op_events E x t w) (keys t)"
proof (cases x)
  case (Install_platform pt source kwargs)
  then show ?thesis using Target_install_platform_keys by simp
next
  case (Remove_platform pt)
  then show ?thesis using Target_remove_platform_keys by simp
next
  case Remove_all
  obtain r t1 w1 where s: "remove_platforms E (map fst (t_platforms t)) t w = (r, t1, w1)"
    by (cases "remove_platforms E (map fst (t_platforms t)) t w") auto
  from remove_platforms_keys[of E "map fst (t_platforms t)" t w] s
  have "keys t1 = replay (loop_events E (map fst (t_platforms t)) t w) (keys t)"
    by simp
  with s Remove_all show ?thesis
    by (cases r) (simp_all add: Target_remove_all_def)
next
  case (Install_data source l f th)
  then show ?thesis
    by (auto simp: Target_install_data_def split: prod.splits sum.splits)
next
  case Remove_data
  then show ?thesis by (simp add: Target_remove_data_def)
next
  case Touch_env_file
  then show ?thesis by (auto simp: Target_touch_env_file_def split: prod.splits)
next
  case Remove_env_file
  then show ?thesis by (simp add: Target_remove_env_file_def)
next
  case (Check b)
  then show ?thesis by (auto simp: Target_check_def split: TargetType.splits)
next
  case (Check_with_source s b)
  then show ?thesis by (auto simp: Target_check_with_source_def split: TargetType.splits)
qed

lemma run_keys:
  "keys (fst (run E ops t w)) = replay (run_events E ops t w) (keys t)"
proof (induction ops arbitrary: t w)
  case Nil then show ?case by simp
next
  case (Cons x ops)
  obtain r t1 w1 where s: "apply_op E x t w = (r, t1, w1)"
    by (cases "apply_op E x t w") auto
  from apply_op_keys[of E x t w] s have "keys t1 = replay (op_events E x t w) (keys t)"
    by simp
  with s Cons.IH[of t1 w1] show ?case by (simp add: replay_append)
qed

text \<open>
  C9, amended. Let the constructor return a target, on a boot directory where every entry of the
  grub directory that is named like a platform is a directory. Then, for every access mode and
  after every sequence of operations, a platform has an entry in the platform map if and only if
  the latest of these events about it is not a removal: the scan of the constructor (made in the
  modes \<open>R\<close> and \<open>RW\<close> only) found its directory in the grub directory; an \<^verbatim>\<open>install_platform\<close> of
  it completed; a \<^verbatim>\<open>remove_platform\<close> of it, called directly or by \<^verbatim>\<open>remove_all\<close>, completed.
\<close>

theorem platform_map_tracks_evidence:
  assumes "Target_init E target_type m kwargs w cache = Some (Inr t, cache')"
    and "platform_entries_are_dirs E w"
  shows "(map_of (t_platforms (fst (run E ops t w))) platform_type \<noteq> None)
       = (platform_type \<in> replay (run_events E ops t w) (scan_found E m w))"
proof -
  have "(map_of (t_platforms (fst (run E ops t w))) platform_type \<noteq> None)
        = (platform_type \<in> keys (fst (run E ops t w)))"
    by (simp add: map_of_eq_None_iff)
  also have "\<dots> = (platform_type \<in> replay (run_events E ops t w) (keys t))"
    by (simp add: run_keys)
  finally show ?thesis by (simp add: Target_init_keys[OF assms])
qed

lemma E0_members [simp]:
  "PlatformType_members E0 = [I386_PC, I386_MULTIBOOT, MIPSEL_LOONGSON, X86_64_EFI, I386_EFI]"
  "PlatformType_value E0 = value0"
  by (simp_all add: E0_def)

lemma value0_simps [simp]:
  "value0 I386_PC = ''i386-pc''" "value0 I386_MULTIBOOT = ''i386-multiboot''"
  "value0 MIPSEL_LOONGSON = ''mipsel-loongson''" "value0 X86_64_EFI = ''x86_64-efi''"
  "value0 I386_EFI = ''i386-efi''"
  by (simp_all add: value0_def X86_64_EFI_def I386_EFI_def)

lemma platform_distinct [simp]:
  "X86_64_EFI \<noteq> I386_PC" "X86_64_EFI \<noteq> I386_MULTIBOOT" "X86_64_EFI \<noteq> MIPSEL_LOONGSON"
  "X86_64_EFI \<noteq> I386_EFI" "I386_EFI \<noteq> I386_PC"
  "I386_PC \<noteq> X86_64_EFI" "I386_MULTIBOOT \<noteq> X86_64_EFI" "MIPSEL_LOONGSON \<noteq> X86_64_EFI"
  "I386_EFI \<noteq> X86_64_EFI" "I386_PC \<noteq> I386_EFI"
  by (simp_all add: X86_64_EFI_def I386_EFI_def)

lemma efi_world_init:
  "Target_init E0 MOUNTED_HDD_DEV RW hdd_kwargs (efi_world [1, 2, 3] [1, 2, 3]) []
   = Some (Inr efi_target, stale_cache)"
proof -
  have "Common_init_platforms E0 (boot (efi_world [1, 2, 3] [1, 2, 3])) []
        = Inr [(X86_64_EFI, new_info BOOTABLE)]"
    by (simp add: Common_init_platforms_def os_path_isdir_def os_listdir_def efi_world_def)
  then show ?thesis
    by (simp add: Target_init_def Target_init_attrs_def hdd_kwargs_def os_path_join_def
        efi_check_fills_cache efi_target_def)
qed

lemma efi_world_dirs: "platform_entries_are_dirs E0 (efi_world [1, 2, 3] [1, 2, 3])"
  by (simp add: platform_entries_are_dirs_def os_path_exists_def os_path_isdir_def efi_world_def)

lemma efi_world_found: "X86_64_EFI \<in> scan_found E0 RW (efi_world [1, 2, 3] [1, 2, 3])"
  by (simp add: scan_found_def os_path_isdir_def efi_world_def)

lemma efi_world_remove:
  "Target_remove_platform E0 efi_target X86_64_EFI (efi_world [1, 2, 3] [1, 2, 3])
   = (Inr (), efi_target\<lparr>t_platforms := []\<rparr>,
      \<lparr>boot = Dir [(''grub'', Dir [])], devs = [(''/dev/sda'', [])], mtime = (\<lambda>p. 0)\<rparr>)"
  by (simp add: Target_remove_platform_def efi_target_def write_capable_def
      Efi_remove_platform_def Let_def force_rm_def unlink_def rmdir_if_empty_def os_listdir_def
      Common_remove_platform_def efi_world_def)

theorem platform_map_tracks_evidence_witness:
  "Target_init E0 MOUNTED_HDD_DEV RW hdd_kwargs (efi_world [1, 2, 3] [1, 2, 3]) []
     = Some (Inr efi_target, stale_cache)
   \<and> platform_entries_are_dirs E0 (efi_world [1, 2, 3] [1, 2, 3])
   \<and> map_of (t_platforms (fst (run E0 [] efi_target (efi_world [1, 2, 3] [1, 2, 3]))))
       X86_64_EFI \<noteq> None
   \<and> X86_64_EFI \<in> replay (run_events E0 [] efi_target (efi_world [1, 2, 3] [1, 2, 3]))
       (scan_found E0 RW (efi_world [1, 2, 3] [1, 2, 3]))
   \<and> X86_64_EFI \<notin> replay (run_events E0 [Remove_platform X86_64_EFI] efi_target
         (efi_world [1, 2, 3] [1, 2, 3]))
       (scan_found E0 RW (efi_world [1, 2, 3] [1, 2, 3]))"
  using
    platform_map_tracks_evidence [OF efi_world_init efi_world_dirs, of "[]" X86_64_EFI]
    platform_map_tracks_evidence [OF efi_world_init efi_world_dirs,
      of "[Remove_platform X86_64_EFI]" X86_64_EFI]
  by (simp add: efi_world_init efi_world_dirs efi_world_remove) (simp add: efi_target_def)

text \<open>
  The claim C9 as stated fails after a removal: the scan found the directory of the platform,
  \<^verbatim>\<open>remove_platform\<close> then completed, and the platform has no entry.
\<close>

theorem removed_platform_counterexample:
  "Target_init E0 MOUNTED_HDD_DEV RW hdd_kwargs (efi_world [1, 2, 3] [1, 2, 3]) []
     = Some (Inr efi_target, stale_cache)
   \<and> os_path_isdir (boot (efi_world [1, 2, 3] [1, 2, 3])) [''grub'', PlatformType_value E0 X86_64_EFI]
   \<and> X86_64_EFI \<in> scan_found E0 RW (efi_world [1, 2, 3] [1, 2, 3])
   \<and> run_events E0 [Remove_platform X86_64_EFI] efi_target (efi_world [1, 2, 3] [1, 2, 3])
       = [Removed X86_64_EFI]
   \<and> map_of (t_platforms (fst (run E0 [Remove_platform X86_64_EFI] efi_target
         (efi_world [1, 2, 3] [1, 2, 3])))) X86_64_EFI = None"
  by (simp add: efi_world_init efi_world_found efi_world_remove)
     (simp add: os_path_isdir_def efi_world_def)

end
